theory Spec2Isabelle
  imports Complex_Main
begin

section \<open>JavaScript values and the built-ins the sources call\<close>

text \<open>
  The TypeScript sources handle the agent's event stream as untyped values
  (\<^verbatim>\<open>any\<close>): whatever \<^verbatim>\<open>JSON.parse\<close> returns. A JSON number is the double it denotes
  (\<open>Finite\<close> its exact value, \<open>Infinite\<close> an overflowing literal with its sign);
  an object keeps its members in source order. \<open>None\<close> of type \<open>json option\<close> is
  \<^verbatim>\<open>undefined\<close>. Strings are sequences of code units below 256.
\<close>

datatype jsnumber = Finite rat | Infinite bool

datatype json =
    JNull
  | JBool bool
  | JNum jsnumber
  | JStr string
  | JArr "json list"
  | JObj "(string \<times> json) list"

type_synonym jsval = "json option"

text \<open>A thrown value, carried as the text \<^verbatim>\<open>`${error}`\<close> gives for it.\<close>

datatype exn = Exn (describe: string)

text \<open>
  The outcome of a call: it returns, it throws (a rejected promise), or it does not
  come back.
\<close>

datatype 'a result = Return 'a | Throw exn | Diverge

text \<open>
  What the sources take from the runtime and is not computed here: \<^verbatim>\<open>JSON.parse\<close>
  (\<open>None\<close> where it throws), the string conversion of a value that is not a string
  inside a template literal, the comparison \<^verbatim>\<open>v > n\<close> of a JSON value with a number, the
  TypeError of calling \<^verbatim>\<open>startsWith\<close> on a value that has none, \<^verbatim>\<open>path.join\<close>,
  \<^verbatim>\<open>path.dirname\<close>, \<^verbatim>\<open>import.meta.dir\<close> and \<^verbatim>\<open>process.cwd()\<close>.
\<close>

record runtime =
  JSON_parse :: "string \<Rightarrow> json option"
  ToString :: "json \<Rightarrow> exn + string"
  greater_than :: "json \<Rightarrow> int \<Rightarrow> bool"
  not_a_function :: exn
  path_join :: "string list \<Rightarrow> string"
  path_dirname :: "string \<Rightarrow> string"
  import_meta_dir :: string
  process_cwd :: string

text \<open>Truthiness, as \<^verbatim>\<open>if (v)\<close>, \<^verbatim>\<open>v || d\<close> and \<^verbatim>\<open>!v\<close> read it.\<close>

fun truthy :: "jsval \<Rightarrow> bool" where
  "truthy None = False"
| "truthy (Some JNull) = False"
| "truthy (Some (JBool b)) = b"
| "truthy (Some (JNum n)) = (n \<noteq> Finite 0)"
| "truthy (Some (JStr s)) = (s \<noteq> [])"
| "truthy (Some (JArr xs)) = True"
| "truthy (Some (JObj kvs)) = True"

text \<open>\<^verbatim>\<open>v || d\<close> for a default \<open>d\<close> that is a JSON value.\<close>

definition js_or :: "jsval \<Rightarrow> json \<Rightarrow> json" where
  "js_or v d = (if truthy v then the v else d)"

text \<open>
  \<^verbatim>\<open>v.k\<close> for a value \<open>v\<close> that is neither null nor undefined and a name \<open>k\<close> that
  no prototype defines (every name the sources read but \<^verbatim>\<open>length\<close>): the member of
  an object, the last one of that name, and undefined on anything else.
\<close>

fun js_prop :: "json \<Rightarrow> string \<Rightarrow> jsval" where
  "js_prop (JObj kvs) k = map_of (rev kvs) k"
| "js_prop JNull k = None"
| "js_prop (JBool b) k = None"
| "js_prop (JNum n) k = None"
| "js_prop (JStr s) k = None"
| "js_prop (JArr xs) k = None"

text \<open>\<^verbatim>\<open>v?.k\<close>: undefined when \<open>v\<close> is null or undefined.\<close>

fun js_opt_prop :: "jsval \<Rightarrow> string \<Rightarrow> jsval" where
  "js_opt_prop None k = None"
| "js_opt_prop (Some JNull) k = None"
| "js_opt_prop (Some v) k = js_prop v k"

text \<open>
  \<^verbatim>\<open>v.length > n\<close> for a truthy \<open>v\<close> or a string: the length of a string or an
  array, the member called \<^verbatim>\<open>length\<close> of an object, undefined (and so not greater) on a
  number or a boolean. The receiver is never null where the sources read it, since
  \<^verbatim>\<open>||\<close> has replaced a null by then.
\<close>

fun js_length_gt :: "runtime \<Rightarrow> json \<Rightarrow> int \<Rightarrow> bool" where
  "js_length_gt rt (JStr s) n = (int (length s) > n)"
| "js_length_gt rt (JArr xs) n = (int (length xs) > n)"
| "js_length_gt rt (JObj kvs) n =
     (case map_of (rev kvs) ''length'' of None \<Rightarrow> False | Some v \<Rightarrow> greater_than rt v n)"
| "js_length_gt rt (JNum x) n = False"
| "js_length_gt rt (JBool b) n = False"
| "js_length_gt rt JNull n = False"

text \<open>\<^verbatim>\<open>`${v}`\<close>: the conversion of a value inside a template literal.\<close>

fun js_template :: "runtime \<Rightarrow> jsval \<Rightarrow> exn + string" where
  "js_template rt None = Inr ''undefined''"
| "js_template rt (Some (JStr s)) = Inr s"
| "js_template rt (Some v) = ToString rt v"

subsection \<open>Strings\<close>

definition newline :: char where
  "newline = CHR 0x0A"

text \<open>The characters \<^verbatim>\<open>String.prototype.trim\<close> strips, among code units below 256.\<close>

definition js_whitespace :: "char \<Rightarrow> bool" where
  "js_whitespace c = (c \<in> {CHR 0x09, CHR 0x0A, CHR 0x0B, CHR 0x0C, CHR 0x0D, CHR 0x20, CHR 0xA0})"

definition js_trim :: "string \<Rightarrow> string" where
  "js_trim s = rev (dropWhile js_whitespace (rev (dropWhile js_whitespace s)))"

text \<open>\<^verbatim>\<open>s.split("\n")\<close>: the pieces between newlines; one empty piece for the empty string.\<close>

fun split_newline :: "string \<Rightarrow> string list" where
  "split_newline [] = [[]]"
| "split_newline (c # cs) =
     (if c = newline then [] # split_newline cs
      else (case split_newline cs of
              [] \<Rightarrow> [[c]]
            | l # ls \<Rightarrow> (c # l) # ls))"

definition startsWith :: "string \<Rightarrow> string \<Rightarrow> bool" where
  "startsWith s p = (take (length p) s = p)"

fun js_includes :: "string \<Rightarrow> string \<Rightarrow> bool" where
  "js_includes [] p = (p = [])"
| "js_includes (c # cs) p = (startsWith (c # cs) p \<or> js_includes cs p)"

text \<open>
  \<^verbatim>\<open>s.lastIndexOf(c, pos)\<close> for a one-character \<open>c\<close>: the greatest index at most
  \<open>pos\<close> (clamped to the string) that holds \<open>c\<close>, or \<open>-1\<close>.
\<close>

definition lastIndexOf :: "string \<Rightarrow> char \<Rightarrow> int \<Rightarrow> int" where
  "lastIndexOf s c pos =
     (let start = min (max pos 0) (int (length s) - 1);
          hits = filter (\<lambda>k. s ! k = c) [0 ..< nat (start + 1)]
      in if hits = [] then - 1 else int (last hits))"

text \<open>\<^verbatim>\<open>s.slice(0, e)\<close>: a negative end counts from the end of the string.\<close>

definition slice0 :: "string \<Rightarrow> int \<Rightarrow> string" where
  "slice0 s e = (if e < 0 then take (nat (int (length s) + e)) s else take (nat e) s)"

text \<open>\<^verbatim>\<open>xs.join(sep)\<close> on strings.\<close>

fun join :: "string \<Rightarrow> string list \<Rightarrow> string" where
  "join sep [] = []"
| "join sep [x] = x"
| "join sep (x # y # ys) = x @ sep @ join sep (y # ys)"

text \<open>The decimal text of an integer, as a template literal prints it.\<close>

function show_nat :: "nat \<Rightarrow> string" where
  "show_nat n =
     (if n < 10 then [''0123456789'' ! n]
      else show_nat (n div 10) @ [''0123456789'' ! (n mod 10)])"
  by pat_completeness auto
termination
  by (relation "measure id") auto

declare show_nat.simps [simp del]

definition show_int :: "int \<Rightarrow> string" where
  "show_int i = (if i < 0 then CHR ''-'' # show_nat (nat (- i)) else show_nat (nat i))"

text \<open>\<^verbatim>\<open>s.replace(pat, rep)\<close> with a string pattern: the first occurrence only.\<close>

fun replace_first :: "string \<Rightarrow> string \<Rightarrow> string \<Rightarrow> string" where
  "replace_first [] pat rep = (if pat = [] then rep else [])"
| "replace_first (c # cs) pat rep =
     (if startsWith (c # cs) pat then rep @ drop (length pat) (c # cs)
      else c # replace_first cs pat rep)"

section \<open>utils.ts: truncateOutput\<close>

definition default_suffix :: string where
  "default_suffix = ''... (truncated)''"

definition jsonl_prefix :: string where
  \<open>jsonl_prefix = ''{"type":''\<close>

text \<open>
  The body of the \<^verbatim>\<open>try\<close> of \<^verbatim>\<open>truncateOutput\<close> for one parsed line: the text
  the function goes on with, or \<open>None\<close> when the line yields none. Reading
  \<^verbatim>\<open>data.type\<close> of null throws, and so does the recursive call on a text that is
  truthy but not a string (it has no \<^verbatim>\<open>startsWith\<close>); the \<^verbatim>\<open>catch\<close> swallows both
  and the loop goes on, so both are \<open>None\<close> here.
\<close>

definition message_text :: "json \<Rightarrow> string option" where
  "message_text data =
     (if data = JNull then None
      else if js_prop data ''type'' = Some (JStr ''result'')
              \<and> (case js_prop data ''result'' of Some (JStr r) \<Rightarrow> True | _ \<Rightarrow> False)
           then (case js_prop data ''result'' of Some (JStr r) \<Rightarrow> Some r | _ \<Rightarrow> None)
      else if js_prop data ''type'' = Some (JStr ''assistant'')
              \<and> truthy (js_opt_prop (js_prop data ''message'') ''content'')
           then (let content = js_opt_prop (js_prop data ''message'') ''content'';
                     text = (case content of
                               Some (JArr xs) \<Rightarrow>
                                 js_opt_prop (case xs of [] \<Rightarrow> None | x # _ \<Rightarrow> Some x) ''text''
                             | _ \<Rightarrow> None)
                 in if truthy text
                    then (case text of Some (JStr t) \<Rightarrow> Some t | _ \<Rightarrow> None)
                    else None)
      else None)"

text \<open>
  The \<^verbatim>\<open>for\<close> loop of \<^verbatim>\<open>truncateOutput\<close>, over the lines from the last to the first
  (the argument is the reversed list): an empty line is skipped, a line that does
  not parse is skipped, and the first line that yields a text ends the loop.
\<close>

fun last_message_text :: "runtime \<Rightarrow> string list \<Rightarrow> string option" where
  "last_message_text rt [] = None"
| "last_message_text rt (line # earlier) =
     (if line = [] then last_message_text rt earlier
      else (case JSON_parse rt line of
              None \<Rightarrow> last_message_text rt earlier
            | Some data \<Rightarrow>
                (case message_text data of
                   Some t \<Rightarrow> Some t
                 | None \<Rightarrow> last_message_text rt earlier)))"

text \<open>
  \<^verbatim>\<open>truncateOutput(output, maxLength, suffix)\<close>. The function calls itself on the text
  it extracts from a JSONL-shaped input; \<open>None\<close> is a call that never returns.
\<close>

partial_function (option) truncateOutput ::
  "runtime \<Rightarrow> string \<Rightarrow> int \<Rightarrow> string \<Rightarrow> string option" where
  "truncateOutput rt output maxLength suffix =
     (if startsWith output jsonl_prefix \<and> js_includes output (newline # jsonl_prefix)
      then (case last_message_text rt (rev (split_newline (js_trim output))) of
              Some t \<Rightarrow> truncateOutput rt t maxLength suffix
            | None \<Rightarrow>
                Some (''[JSONL output with ''
                      @ show_nat (length (split_newline (js_trim output)))
                      @ '' messages]'' @ suffix))
      else if int (length output) \<le> maxLength then Some output
      else (let truncateAt = maxLength - int (length suffix);
                newlinePos = lastIndexOf output newline truncateAt;
                spacePos = lastIndexOf output CHR '' '' truncateAt
            in if newlinePos > truncateAt - 50 \<and> newlinePos > 0
               then Some (slice0 output newlinePos @ suffix)
               else if spacePos > truncateAt - 20 \<and> spacePos > 0
               then Some (slice0 output spacePos @ suffix)
               else Some (slice0 output truncateAt @ suffix)))"

declare truncateOutput.simps [code]

section \<open>models.ts\<close>

datatype RetryCode =
    NONE
  | CLAUDE_CODE_ERROR
  | TIMEOUT_ERROR
  | EXECUTION_ERROR
  | ERROR_DURING_EXECUTION

datatype ModelType = SONNET | OPUS

fun model_name :: "ModelType \<Rightarrow> string" where
  "model_name SONNET = ''sonnet''"
| "model_name OPUS = ''opus''"

record AgentPromptRequest =
  prompt :: string
  adw_id :: string
  agent_name :: string
  model :: ModelType
  dangerously_skip_permissions :: bool
  output_file :: string
  working_dir :: "string option"

text \<open>
  The response as the executor builds it: \<open>output\<close> and \<open>session_id\<close> hold what the
  result event carried, whatever its JSON type.
\<close>

record AgentPromptResponse =
  "output" :: json
  success :: bool
  session_id :: jsval
  retry_code :: RetryCode

record AgentTemplateRequest =
  t_agent_name :: string
  slash_command :: string
  args :: "string list"
  t_adw_id :: string
  t_model :: ModelType
  t_working_dir :: "string option"

section \<open>claude-executor.ts\<close>

subsection \<open>The outside world\<close>

text \<open>
  What one call of \<^verbatim>\<open>executeClaudeCode\<close> meets outside the program, one field per
  operation that can fail: the write of the placeholder in the output directory,
  \<^verbatim>\<open>Bun.spawn\<close> and the wrapper's exit code, the text of the output file, the write of
  the JSON array file, the text of the file the snapshot writer reads, the write of
  the snapshot, and the wrapper's captured standard error.
\<close>

record run_io =
  placeholder_write :: "exn option"
  spawn_exit :: "exn + int"
  jsonl_text :: "exn + string"
  json_write :: "exn option"
  final_read :: "exn + string"
  final_write :: "exn option"
  stderr_text :: "exn + string"

text \<open>What is written: a text, or \<^verbatim>\<open>JSON.stringify(v, null, 2)\<close> of a value.\<close>

datatype content = Text string | Stringified json

text \<open>
  What the program does to the outside: a file written, the wrapper spawned with its
  argument vector and working directory, a sleep of so many milliseconds (\<open>None\<close>
  is NaN). Console logging is left out.
\<close>

datatype io_event =
    Wrote string content
  | Spawned "string list" string
  | Slept "int option"

definition OUTPUT_JSONL :: string where
  "OUTPUT_JSONL = ''cc_raw_output.jsonl''"

definition OUTPUT_JSON :: string where
  "OUTPUT_JSON = ''cc_raw_output.json''"

definition FINAL_OBJECT_JSON :: string where
  "FINAL_OBJECT_JSON = ''cc_final_object.json''"

subsection \<open>parseJSONLOutput\<close>

text \<open>
  The backward scan for the result message, over the messages from the last to the
  first. The outer \<open>None\<close> is the TypeError of reading \<^verbatim>\<open>.type\<close> of a null message.
\<close>

fun find_result :: "json list \<Rightarrow> jsval option" where
  "find_result [] = Some None"
| "find_result (m # earlier) =
     (if m = JNull then None
      else if js_prop m ''type'' = Some (JStr ''result'') then Some (Some m)
      else find_result earlier)"

text \<open>
  One \<^verbatim>\<open>try\<close> holds the read, the parse of every line and the scan: whatever throws
  inside it, the \<^verbatim>\<open>catch\<close> returns no messages and no result message.
\<close>

definition parseJSONLOutput :: "runtime \<Rightarrow> exn + string \<Rightarrow> json list \<times> jsval" where
  "parseJSONLOutput rt file_text =
     (case file_text of
        Inl e \<Rightarrow> ([], None)
      | Inr text \<Rightarrow>
          (let lines = filter (\<lambda>line. js_trim line \<noteq> []) (split_newline (js_trim text))
           in case those (map (JSON_parse rt) lines) of
                None \<Rightarrow> ([], None)
              | Some messages \<Rightarrow>
                  (case find_result (rev messages) of
                     None \<Rightarrow> ([], None)
                   | Some resultMessage \<Rightarrow> (messages, resultMessage))))"

subsection \<open>The audit writers\<close>

definition convertJSONLToJSON ::
  "runtime \<Rightarrow> string \<Rightarrow> run_io \<Rightarrow> string result \<times> io_event list" where
  "convertJSONLToJSON rt jsonlFile io =
     (let outputDir = path_dirname rt jsonlFile;
          jsonFile = path_join rt [outputDir, OUTPUT_JSON];
          messages = fst (parseJSONLOutput rt (jsonl_text io))
      in case json_write io of
           Some e \<Rightarrow> (Throw e, [])
         | None \<Rightarrow> (Return jsonFile, [Wrote jsonFile (Stringified (JArr messages))]))"

text \<open>
  \<^verbatim>\<open>saveLastEntryAsRawResult\<close>: the whole body is inside \<^verbatim>\<open>try\<close>, and the
  \<^verbatim>\<open>catch\<close> returns null (\<open>None\<close>).
\<close>

definition saveLastEntryAsRawResult ::
  "runtime \<Rightarrow> string \<Rightarrow> run_io \<Rightarrow> string option \<times> io_event list" where
  "saveLastEntryAsRawResult rt jsonFile io =
     (case final_read io of
        Inl e \<Rightarrow> (None, [])
      | Inr text \<Rightarrow>
          (case JSON_parse rt text of
             None \<Rightarrow> (None, [])
           | Some (JArr (m # ms)) \<Rightarrow>
               (let lastEntry = last (m # ms);
                    outputDir = path_dirname rt jsonFile;
                    finalObjectFile = path_join rt [outputDir, FINAL_OBJECT_JSON]
                in case final_write io of
                     Some e \<Rightarrow> (None, [])
                   | None \<Rightarrow>
                       (Some finalObjectFile, [Wrote finalObjectFile (Stringified lastEntry)]))
           | Some other \<Rightarrow> (None, [])))"

subsection \<open>executeClaudeCode\<close>

definition timeout_response :: AgentPromptResponse where
  "timeout_response =
     \<lparr>output = JStr ''Error: Claude Code command timed out after 5 minutes'',
      success = False, session_id = None, retry_code = TIMEOUT_ERROR\<rparr>"

text \<open>
  The three branches after the audit writers (the \<^verbatim>\<open>if\<close> / \<^verbatim>\<open>else if\<close> /
  \<^verbatim>\<open>else\<close> of the \<^verbatim>\<open>try\<close> block). \<^verbatim>\<open>truncateOutput\<close> called on a result text that
  is not a string throws a TypeError; the standard error of the wrapper is read in
  the last branch only, where the error message is the standard error or the generic
  text first and is then replaced by the text of an error result event.
\<close>

definition classify ::
  "runtime \<Rightarrow> int \<Rightarrow> jsval \<Rightarrow> exn + string \<Rightarrow> AgentPromptResponse result" where
  "classify rt exitCode resultMessage stderr_read =
     (if exitCode = 0 \<and> truthy resultMessage
      then (let rm = the resultMessage;
                isError = truthy (js_prop rm ''is_error'');
                subtype = js_or (js_prop rm ''subtype'') (JStr [])
            in if subtype = JStr ''error_during_execution''
               then Return
                 \<lparr>output = JStr ''Error during execution: Agent encountered an error and did not return a result'',
                  success = False, session_id = js_prop rm ''session_id'',
                  retry_code = ERROR_DURING_EXECUTION\<rparr>
               else (let resultText = js_or (js_prop rm ''result'') (JStr [])
                     in if isError \<and> js_length_gt rt resultText 1000
                        then (case resultText of
                                JStr s \<Rightarrow>
                                  (case truncateOutput rt s 800 default_suffix of
                                     None \<Rightarrow> Diverge
                                   | Some finalOutput \<Rightarrow> Return
                                       \<lparr>output = JStr finalOutput, success = \<not> isError,
                                        session_id = js_prop rm ''session_id'',
                                        retry_code = NONE\<rparr>)
                              | other \<Rightarrow> Throw (not_a_function rt))
                        else Return
                          \<lparr>output = resultText, success = \<not> isError,
                           session_id = js_prop rm ''session_id'', retry_code = NONE\<rparr>))
      else if exitCode = 124 then Return timeout_response
      else (case stderr_read of
              Inl e \<Rightarrow> Throw e
            | Inr stderr \<Rightarrow>
                (let errorMsg = (if stderr \<noteq> [] then stderr
                                 else ''Claude Code command failed with exit code ''
                                      @ show_int exitCode)
                 in case (if truthy (js_opt_prop resultMessage ''is_error'')
                          then (case js_template rt (js_opt_prop resultMessage ''result'') of
                                  Inl e \<Rightarrow> Inl e
                                | Inr r \<Rightarrow> Inr (''Claude Code error: '' @ r))
                          else Inr errorMsg) of
                      Inl e \<Rightarrow> Throw e
                    | Inr errorMsg \<Rightarrow>
                        (case truncateOutput rt errorMsg 800 default_suffix of
                           None \<Rightarrow> Diverge
                         | Some truncated \<Rightarrow> Return
                             \<lparr>output = JStr truncated, success = False,
                              session_id = js_opt_prop resultMessage ''session_id'',
                              retry_code = CLAUDE_CODE_ERROR\<rparr>))))"

text \<open>The body of the \<^verbatim>\<open>try\<close> block: spawn, wait, parse, the audit writers, classify.\<close>

definition executeClaudeCode_try ::
  "runtime \<Rightarrow> AgentPromptRequest \<Rightarrow> run_io \<Rightarrow> string \<Rightarrow> string list
     \<Rightarrow> AgentPromptResponse result \<times> io_event list" where
  "executeClaudeCode_try rt request io bashScript argv =
     (case spawn_exit io of
        Inl e \<Rightarrow> (Throw e, [])
      | Inr exitCode \<Rightarrow>
          (let spawned =
                 [Spawned (bashScript # argv)
                    (case working_dir request of
                       None \<Rightarrow> process_cwd rt
                     | Some d \<Rightarrow> if d = [] then process_cwd rt else d)];
               resultMessage = snd (parseJSONLOutput rt (jsonl_text io))
           in case convertJSONLToJSON rt (output_file request) io of
                (Throw e, written) \<Rightarrow> (Throw e, spawned @ written)
              | (Diverge, written) \<Rightarrow> (Diverge, spawned @ written)
              | (Return converted, written) \<Rightarrow>
                  (let jsonFile = replace_first (output_file request) ''.jsonl'' ''.json'';
                       saved = saveLastEntryAsRawResult rt jsonFile io
                   in (classify rt exitCode resultMessage (stderr_text io),
                       spawned @ written @ snd saved))))"

text \<open>The response of the \<^verbatim>\<open>catch\<close> block.\<close>

definition execution_error :: "exn \<Rightarrow> AgentPromptResponse" where
  "execution_error error =
     \<lparr>output = JStr (''Error executing Claude Code: '' @ describe error),
      success = False, session_id = None, retry_code = EXECUTION_ERROR\<rparr>"

text \<open>The \<^verbatim>\<open>catch\<close> block, applied to the outcome of the \<^verbatim>\<open>try\<close> block.\<close>

definition catch_error :: "AgentPromptResponse result \<Rightarrow> AgentPromptResponse result" where
  "catch_error outcome =
     (case outcome of Throw error \<Rightarrow> Return (execution_error error) | other \<Rightarrow> other)"

text \<open>
  \<^verbatim>\<open>executeClaudeCode\<close>: the placeholder is written before the \<^verbatim>\<open>try\<close> block, so
  its failure leaves the function as a throw; whatever the \<^verbatim>\<open>try\<close> block throws
  comes back as an \<open>EXECUTION_ERROR\<close> response.
\<close>

definition executeClaudeCode ::
  "runtime \<Rightarrow> AgentPromptRequest \<Rightarrow> run_io \<Rightarrow> AgentPromptResponse result \<times> io_event list" where
  "executeClaudeCode rt request io =
     (let scriptDir = import_meta_dir rt;
          bashScript = path_join rt [path_dirname rt scriptDir, ''bash'', ''claude-code-exec.sh''];
          outputDir = path_dirname rt (output_file request);
          placeholder = path_join rt [outputDir, ''.placeholder'']
      in case placeholder_write io of
           Some e \<Rightarrow> (Throw e, [])
         | None \<Rightarrow>
             (let wd = (case working_dir request of None \<Rightarrow> [] | Some d \<Rightarrow> d);
                  mcpConfigPath = (if wd \<noteq> [] then path_join rt [wd, ''.mcp.json''] else []);
                  skipPermissions =
                    (if dangerously_skip_permissions request then ''true'' else ''false'');
                  argv = [prompt request, model_name (model request), output_file request,
                          (if wd \<noteq> [] then wd else process_cwd rt),
                          mcpConfigPath, skipPermissions]
              in case executeClaudeCode_try rt request io bashScript argv of
                   (outcome, events) \<Rightarrow>
                     (catch_error outcome, Wrote placeholder (Text []) # events)))"

subsection \<open>executeClaudeCodeWithRetry\<close>

text \<open>
  The program's run so far: how many times \<^verbatim>\<open>executeClaudeCode\<close> has been called,
  and what has been done to the outside. The \<open>i\<close>-th call (from 0) meets the
  outside world \<open>ios i\<close>.
\<close>

record world =
  invocations :: nat
  trace :: "io_event list"

text \<open>
  The \<^verbatim>\<open>while\<close> loop that extends the delays; a delay of \<open>None\<close> is NaN, which is
  what \<^verbatim>\<open>undefined + 2\<close> gives when the array is empty.
\<close>

function extend_delays :: "int \<Rightarrow> int option list \<Rightarrow> int option list" where
  "extend_delays maxRetries retryDelays =
     (if int (length retryDelays) < maxRetries
      then extend_delays maxRetries
             (retryDelays @ [if retryDelays = [] then None
                             else map_option (\<lambda>d. d + 2) (last retryDelays)])
      else retryDelays)"
  by pat_completeness auto
termination
  by (relation "measure (\<lambda>(m, ds). nat (m - int (length ds)))") auto

declare extend_delays.simps [simp del]

text \<open>\<^verbatim>\<open>retryDelays[i]\<close>: undefined out of range, and NaN once multiplied.\<close>

definition delay_at :: "int option list \<Rightarrow> int \<Rightarrow> int option" where
  "delay_at retryDelays i =
     (if 0 \<le> i \<and> nat i < length retryDelays then retryDelays ! nat i else None)"

definition retryableCodes :: "RetryCode list" where
  "retryableCodes = [CLAUDE_CODE_ERROR, TIMEOUT_ERROR, EXECUTION_ERROR, ERROR_DURING_EXECUTION]"

text \<open>The \<^verbatim>\<open>for\<close> loop, from \<open>attempt\<close> on; falling out of it is the final \<^verbatim>\<open>throw\<close>.\<close>

function retry_loop ::
  "runtime \<Rightarrow> AgentPromptRequest \<Rightarrow> int \<Rightarrow> int option list \<Rightarrow> (nat \<Rightarrow> run_io)
     \<Rightarrow> int \<Rightarrow> world \<Rightarrow> AgentPromptResponse result \<times> world" where
  "retry_loop rt request maxRetries retryDelays ios attempt w =
     (if attempt \<le> maxRetries
      then (let w1 = (if attempt > 0
                      then w\<lparr>trace := trace w
                             @ [Slept (map_option (\<lambda>d. d * 1000)
                                         (delay_at retryDelays (attempt - 1)))]\<rparr>
                      else w);
                ran = executeClaudeCode rt request (ios (invocations w1));
                w2 = w1\<lparr>invocations := Suc (invocations w1), trace := trace w1 @ snd ran\<rparr>
            in case fst ran of
                 Throw e \<Rightarrow> (Throw e, w2)
               | Diverge \<Rightarrow> (Diverge, w2)
               | Return response \<Rightarrow>
                   if success response \<or> retry_code response = NONE then (Return response, w2)
                   else if retry_code response \<notin> set retryableCodes then (Return response, w2)
                   else if attempt < maxRetries
                   then retry_loop rt request maxRetries retryDelays ios (attempt + 1) w2
                   else (Return response, w2))
      else (Throw (Exn ''Error: Unexpected retry logic error''), w))"
  by pat_completeness auto
termination
  by (relation "measure (\<lambda>(rt, request, maxRetries, retryDelays, ios, attempt, w).
                           nat (maxRetries + 1 - attempt))") auto

declare retry_loop.simps [simp del]

definition executeClaudeCodeWithRetry ::
  "runtime \<Rightarrow> AgentPromptRequest \<Rightarrow> int \<Rightarrow> int list \<Rightarrow> (nat \<Rightarrow> run_io) \<Rightarrow> world
     \<Rightarrow> AgentPromptResponse result \<times> world" where
  "executeClaudeCodeWithRetry rt request maxRetries retryDelays ios w =
     retry_loop rt request maxRetries (extend_delays maxRetries (map Some retryDelays)) ios 0 w"

subsection \<open>executeTemplate and savePrompt\<close>

text \<open>
  What the writes of \<^verbatim>\<open>executeTemplate\<close> and \<^verbatim>\<open>savePrompt\<close> meet: the placeholder
  of the output directory, the placeholder of the prompt directory, the prompt file.
\<close>

record template_io =
  template_dir_write :: "exn option"
  prompt_dir_write :: "exn option"
  prompt_write :: "exn option"

text \<open>\<^verbatim>\<open>\w\<close> of a regular expression: a letter, a digit or the underscore.\<close>

definition word_char :: "char \<Rightarrow> bool" where
  "word_char c =
     (let n = (of_char c :: nat)
      in (97 \<le> n \<and> n \<le> 122) \<or> (65 \<le> n \<and> n \<le> 90) \<or> (48 \<le> n \<and> n \<le> 57) \<or> n = 95)"

definition savePrompt ::
  "runtime \<Rightarrow> string \<Rightarrow> string \<Rightarrow> string \<Rightarrow> template_io \<Rightarrow> unit result \<times> io_event list" where
  "savePrompt rt prompt_text adwId agentName tio =
     (if startsWith prompt_text ''/'' \<and> takeWhile word_char (tl prompt_text) \<noteq> []
      then (let commandName = takeWhile word_char (tl prompt_text);
                projectRoot = path_join rt [import_meta_dir rt, ''..'', ''..''];
                promptDir = path_join rt [projectRoot, ''agents'', adwId, agentName, ''prompts''];
                placeholder = path_join rt [promptDir, ''.placeholder''];
                promptFile = path_join rt [promptDir, commandName @ ''.txt'']
            in case prompt_dir_write tio of
                 Some e \<Rightarrow> (Throw e, [])
               | None \<Rightarrow>
                   (case prompt_write tio of
                      Some e \<Rightarrow> (Throw e, [Wrote placeholder (Text [])])
                    | None \<Rightarrow>
                        (Return (),
                         [Wrote placeholder (Text []), Wrote promptFile (Text prompt_text)])))
      else (Return (), []))"

text \<open>The prompt request \<^verbatim>\<open>executeTemplate\<close> builds.\<close>

definition template_prompt_request :: "runtime \<Rightarrow> AgentTemplateRequest \<Rightarrow> AgentPromptRequest" where
  "template_prompt_request rt request =
     (let projectRoot = path_join rt [import_meta_dir rt, ''..'', ''..''];
          outputDir = path_join rt [projectRoot, ''agents'', t_adw_id request, t_agent_name request]
      in \<lparr>prompt = js_trim (slash_command request @ '' '' @ join '' '' (args request)),
          adw_id = t_adw_id request,
          agent_name = t_agent_name request,
          model = t_model request,
          dangerously_skip_permissions = True,
          output_file = path_join rt [outputDir, OUTPUT_JSONL],
          working_dir = t_working_dir request\<rparr>)"

definition executeTemplate ::
  "runtime \<Rightarrow> AgentTemplateRequest \<Rightarrow> template_io \<Rightarrow> (nat \<Rightarrow> run_io) \<Rightarrow> world
     \<Rightarrow> AgentPromptResponse result \<times> world" where
  "executeTemplate rt request tio ios w =
     (let promptRequest = template_prompt_request rt request;
          projectRoot = path_join rt [import_meta_dir rt, ''..'', ''..''];
          outputDir = path_join rt [projectRoot, ''agents'', t_adw_id request, t_agent_name request]
      in case template_dir_write tio of
           Some e \<Rightarrow> (Throw e, w)
         | None \<Rightarrow>
             (let w1 = w\<lparr>trace := trace w
                         @ [Wrote (path_join rt [outputDir, ''.placeholder'']) (Text [])]\<rparr>;
                  saved = savePrompt rt (prompt promptRequest) (t_adw_id request)
                            (t_agent_name request) tio;
                  w2 = w1\<lparr>trace := trace w1 @ snd saved\<rparr>
              in case fst saved of
                   Throw e \<Rightarrow> (Throw e, w2)
                 | Diverge \<Rightarrow> (Diverge, w2)
                 | Return u \<Rightarrow>
                     executeClaudeCodeWithRetry rt promptRequest 3 [1, 3, 5] ios w2))"

section \<open>The bash wrappers\<close>

text \<open>
  The exit codes the wrappers read from \<^verbatim>\<open>lib/error-codes.sh\<close>, a file that is not
  among the sources: they are a parameter of the scripts.
\<close>

record error_codes =
  EXIT_SUCCESS :: nat
  EXIT_CLAUDE_ERROR :: nat
  EXIT_TIMEOUT :: nat
  EXIT_INVALID_ARGS :: nat

text \<open>
  Modelled from the spec: \<^verbatim>\<open>lib/error-codes.sh\<close> is missing; these are the values the
  header of \<^verbatim>\<open>claude-code-exec.sh\<close> and the exit code contract of the specification
  give (0 success, 1 agent error, 124 timeout, 2 invalid arguments).
\<close>

definition documented_codes :: error_codes where
  "documented_codes =
     \<lparr>EXIT_SUCCESS = 0, EXIT_CLAUDE_ERROR = 1, EXIT_TIMEOUT = 124, EXIT_INVALID_ARGS = 2\<rparr>"

text \<open>
  What \<^verbatim>\<open>claude-code-exec.sh\<close> meets: its own name, the variable
  \<^verbatim>\<open>CLAUDE_CODE_PATH\<close>, the tests \<^verbatim>\<open>-d\<close>, \<^verbatim>\<open>command -v\<close> and \<^verbatim>\<open>-f\<close>, the status of
  \<^verbatim>\<open>get_safe_env\<close> (of \<^verbatim>\<open>lib/env-filter.sh\<close>, not among the sources) and of
  \<^verbatim>\<open>mkdir -p\<close>, whether \<^verbatim>\<open>cd\<close> succeeds, and the status of the agent under
  \<^verbatim>\<open>timeout 300\<close>. Under \<^verbatim>\<open>set -e\<close> a failing command ends the script with its status.
\<close>

record sh_env =
  script_name :: string
  CLAUDE_CODE_PATH :: "string option"
  is_directory :: "string \<Rightarrow> bool"
  command_found :: "string \<Rightarrow> bool"
  is_regular_file :: "string \<Rightarrow> bool"
  get_safe_env_status :: nat
  mkdir_status :: nat
  cd_succeeds :: bool
  agent_status :: nat

text \<open>
  How a run of the script ends: its exit status, the command line it handed to
  \<^verbatim>\<open>timeout 300\<close> (if it got that far), and what it wrote to its standard error.
\<close>

record sh_outcome =
  exit_status :: nat
  agent_command :: "string list option"
  stderr_lines :: "string list"

definition claude_code_exec_sh :: "error_codes \<Rightarrow> sh_env \<Rightarrow> string list \<Rightarrow> sh_outcome" where
  "claude_code_exec_sh codes env argv =
     (if length argv < 6
      then \<lparr>exit_status = EXIT_INVALID_ARGS codes, agent_command = None,
            stderr_lines =
              [''Error: Invalid number of arguments'',
               ''Usage: '' @ script_name env
               @ '' <prompt> <model> <output_file> <working_dir> <mcp_config_path> <skip_permissions>'']\<rparr>
      else (let PROMPT = argv ! 0; MODEL = argv ! 1; OUTPUT_FILE = argv ! 2;
                WORKING_DIR = argv ! 3; MCP_CONFIG_PATH = argv ! 4; SKIP_PERMISSIONS = argv ! 5
            in if MODEL \<noteq> ''sonnet'' \<and> MODEL \<noteq> ''opus''
               then \<lparr>exit_status = EXIT_INVALID_ARGS codes, agent_command = None,
                     stderr_lines = [''Error: Model must be 'sonnet' or 'opus', got: '' @ MODEL]\<rparr>
               else if \<not> is_directory env WORKING_DIR
               then \<lparr>exit_status = EXIT_INVALID_ARGS codes, agent_command = None,
                     stderr_lines = [''Error: Working directory does not exist: '' @ WORKING_DIR]\<rparr>
               else (let CLAUDE_PATH = (case CLAUDE_CODE_PATH env of
                                          None \<Rightarrow> ''claude''
                                        | Some p \<Rightarrow> if p = [] then ''claude'' else p)
                     in if \<not> command_found env CLAUDE_PATH
                        then \<lparr>exit_status = EXIT_CLAUDE_ERROR codes, agent_command = None,
                              stderr_lines = [''Error: Claude Code CLI not found at: '' @ CLAUDE_PATH]\<rparr>
                        else if get_safe_env_status env \<noteq> 0
                        then \<lparr>exit_status = get_safe_env_status env, agent_command = None,
                              stderr_lines = []\<rparr>
                        else if mkdir_status env \<noteq> 0
                        then \<lparr>exit_status = mkdir_status env, agent_command = None,
                              stderr_lines = []\<rparr>
                        else (let CMD = [CLAUDE_PATH, ''-p'', PROMPT, ''--model'', MODEL,
                                         ''--output-format'', ''stream-json'', ''--verbose'']
                                        @ (if MCP_CONFIG_PATH \<noteq> [] \<and> is_regular_file env MCP_CONFIG_PATH
                                           then [''--mcp-config'', MCP_CONFIG_PATH] else [])
                                        @ (if SKIP_PERMISSIONS = ''true''
                                           then [''--dangerously-skip-permissions''] else [])
                              in if \<not> cd_succeeds env
                                 then \<lparr>exit_status = EXIT_INVALID_ARGS codes, agent_command = None,
                                       stderr_lines = []\<rparr>
                                 else if agent_status env = 0
                                 then \<lparr>exit_status = EXIT_SUCCESS codes, agent_command = Some CMD,
                                       stderr_lines = []\<rparr>
                                 else if agent_status env = 124
                                 then \<lparr>exit_status = EXIT_TIMEOUT codes, agent_command = Some CMD,
                                       stderr_lines =
                                         [''Error: Claude Code command timed out after 5 minutes'']\<rparr>
                                 else \<lparr>exit_status = EXIT_CLAUDE_ERROR codes, agent_command = Some CMD,
                                       stderr_lines =
                                         [''Error: Claude Code command failed with exit code ''
                                          @ show_nat (agent_status env)]\<rparr>))))"

text \<open>
  \<^verbatim>\<open>claude-code-template.sh\<close>: it ends by \<^verbatim>\<open>exec\<close> of \<^verbatim>\<open>claude-code-exec.sh\<close>, whose
  outcome is then its own. The first argument is the name under which it was
  called, the second the environment of the script it becomes.
\<close>

definition claude_code_template_sh ::
  "error_codes \<Rightarrow> string \<Rightarrow> sh_env \<Rightarrow> string list \<Rightarrow> sh_outcome" where
  "claude_code_template_sh codes name env argv =
     (if length argv < 6
      then \<lparr>exit_status = EXIT_INVALID_ARGS codes, agent_command = None,
            stderr_lines =
              [''Error: Invalid number of arguments'',
               ''Usage: '' @ name
               @ '' <slash_command> <args> <output_file> <model> <working_dir> <mcp_config_path>'']\<rparr>
      else (let SLASH_COMMAND = argv ! 0; ARGS = argv ! 1; OUTPUT_FILE = argv ! 2;
                MODEL = argv ! 3; WORKING_DIR = argv ! 4; MCP_CONFIG_PATH = argv ! 5
            in if \<not> startsWith SLASH_COMMAND ''/''
               then \<lparr>exit_status = EXIT_INVALID_ARGS codes, agent_command = None,
                     stderr_lines =
                       [''Error: Slash command must start with '/', got: '' @ SLASH_COMMAND]\<rparr>
               else (let PROMPT = (if ARGS \<noteq> [] then SLASH_COMMAND @ '' '' @ ARGS
                                   else SLASH_COMMAND)
                     in claude_code_exec_sh codes env
                          [PROMPT, MODEL, OUTPUT_FILE, WORKING_DIR, MCP_CONFIG_PATH, ''true''])))"

section \<open>A runtime to evaluate with\<close>

text \<open>
  The theorems below hold for every runtime. To run the model on a concrete input,
  \<open>posix_runtime\<close> fixes one: \<^verbatim>\<open>JSON.parse\<close> on ASCII texts whose numbers are integers
  of at most 15 digits and whose strings have no \<^verbatim>\<open>\u\<close> escape (it rejects every other
  text, so it is only applied to texts of that kind), and the POSIX \<^verbatim>\<open>path.join\<close>
  and \<^verbatim>\<open>path.dirname\<close>.
\<close>

definition json_space :: "char \<Rightarrow> bool" where
  "json_space c = (c \<in> {CHR 0x20, CHR 0x09, CHR 0x0A, CHR 0x0D})"

definition skip_space :: "string \<Rightarrow> string" where
  "skip_space s = dropWhile json_space s"

definition is_digit :: "char \<Rightarrow> bool" where
  "is_digit c = (48 \<le> (of_char c :: nat) \<and> (of_char c :: nat) \<le> 57)"

fun digits_value :: "nat \<Rightarrow> string \<Rightarrow> nat" where
  "digits_value acc [] = acc"
| "digits_value acc (c # cs) = digits_value (10 * acc + (of_char c - 48)) cs"

text \<open>An integer literal at the head of the text: its value and the rest.\<close>

definition parse_integer :: "string \<Rightarrow> (json \<times> string) option" where
  "parse_integer s =
     (let negative = startsWith s ''-'';
          body = (if negative then tl s else s);
          ds = takeWhile is_digit body;
          rest = dropWhile is_digit body
      in if ds = [] \<or> 15 < length ds \<or> (1 < length ds \<and> hd ds = CHR ''0'')
            \<or> (rest \<noteq> [] \<and> hd rest \<in> {CHR ''.'', CHR ''e'', CHR ''E''})
         then None
         else Some (JNum (Finite (if negative then - of_nat (digits_value 0 ds)
                                  else of_nat (digits_value 0 ds))), rest))"

text \<open>
  The characters of a string literal after its opening quote, up to the closing
  one: the decoded string and the rest of the text.
\<close>

fun parse_chars :: "string \<Rightarrow> (string \<times> string) option" where
  "parse_chars [] = None"
| "parse_chars (c # cs) =
     (if c = CHR 0x22 then Some ([], cs)
      else if c = CHR 0x5C
      then (case cs of
              [] \<Rightarrow> None
            | e # rest \<Rightarrow>
                (case map_of [(CHR 0x22, CHR 0x22), (CHR 0x5C, CHR 0x5C), (CHR ''/'', CHR ''/''),
                              (CHR ''b'', CHR 0x08), (CHR ''f'', CHR 0x0C), (CHR ''n'', CHR 0x0A),
                              (CHR ''r'', CHR 0x0D), (CHR ''t'', CHR 0x09)] e of
                   None \<Rightarrow> None
                 | Some d \<Rightarrow> map_option (\<lambda>(t, r). (d # t, r)) (parse_chars rest)))
      else if (of_char c :: nat) < 32 \<or> 127 < (of_char c :: nat) then None
      else map_option (\<lambda>(t, r). (c # t, r)) (parse_chars cs))"

text \<open>
  A value at the head of the text, the elements of an array after its first
  bracket, the members of an object after its first brace. The first argument bounds
  the number of nested calls; the length of the text is enough.
\<close>

fun parse_value :: "nat \<Rightarrow> string \<Rightarrow> (json \<times> string) option"
  and parse_elements :: "nat \<Rightarrow> string \<Rightarrow> (json list \<times> string) option"
  and parse_members :: "nat \<Rightarrow> string \<Rightarrow> ((string \<times> json) list \<times> string) option" where
  "parse_value 0 s = None"
| "parse_value (Suc n) s =
     (case skip_space s of
        [] \<Rightarrow> None
      | c # cs \<Rightarrow>
          if c = CHR ''{''
          then (case skip_space cs of
                  [] \<Rightarrow> None
                | d # ds \<Rightarrow>
                    if d = CHR ''}'' then Some (JObj [], ds)
                    else map_option (\<lambda>(kvs, r). (JObj kvs, r)) (parse_members n (d # ds)))
          else if c = CHR ''[''
          then (case skip_space cs of
                  [] \<Rightarrow> None
                | d # ds \<Rightarrow>
                    if d = CHR '']'' then Some (JArr [], ds)
                    else map_option (\<lambda>(xs, r). (JArr xs, r)) (parse_elements n (d # ds)))
          else if c = CHR 0x22 then map_option (\<lambda>(t, r). (JStr t, r)) (parse_chars cs)
          else if startsWith (c # cs) ''true'' then Some (JBool True, drop 4 (c # cs))
          else if startsWith (c # cs) ''false'' then Some (JBool False, drop 5 (c # cs))
          else if startsWith (c # cs) ''null'' then Some (JNull, drop 4 (c # cs))
          else parse_integer (c # cs))"
| "parse_elements 0 s = None"
| "parse_elements (Suc n) s =
     (case parse_value n s of
        None \<Rightarrow> None
      | Some (x, r) \<Rightarrow>
          (case skip_space r of
             [] \<Rightarrow> None
           | c # cs \<Rightarrow>
               if c = CHR '']'' then Some ([x], cs)
               else if c = CHR '',''
               then map_option (\<lambda>(xs, r'). (x # xs, r')) (parse_elements n cs)
               else None))"
| "parse_members 0 s = None"
| "parse_members (Suc n) s =
     (case skip_space s of
        [] \<Rightarrow> None
      | q # qs \<Rightarrow>
          if q \<noteq> CHR 0x22 then None
          else (case parse_chars qs of
                  None \<Rightarrow> None
                | Some (k, r) \<Rightarrow>
                    (case skip_space r of
                       [] \<Rightarrow> None
                     | c # cs \<Rightarrow>
                         if c \<noteq> CHR '':'' then None
                         else (case parse_value n cs of
                                 None \<Rightarrow> None
                               | Some (v, r') \<Rightarrow>
                                   (case skip_space r' of
                                      [] \<Rightarrow> None
                                    | d # ds \<Rightarrow>
                                        if d = CHR ''}'' then Some ([(k, v)], ds)
                                        else if d = CHR '',''
                                        then map_option (\<lambda>(kvs, r''). ((k, v) # kvs, r''))
                                               (parse_members n ds)
                                        else None)))))"

definition parse_json_text :: "string \<Rightarrow> json option" where
  "parse_json_text s =
     (case parse_value (Suc (length s)) s of
        None \<Rightarrow> None
      | Some (v, rest) \<Rightarrow> if skip_space rest = [] then Some v else None)"

text \<open>\<^verbatim>\<open>s.split("/")\<close>.\<close>

fun split_slash :: "string \<Rightarrow> string list" where
  "split_slash [] = [[]]"
| "split_slash (c # cs) =
     (if c = CHR ''/'' then [] # split_slash cs
      else (case split_slash cs of
              [] \<Rightarrow> [[c]]
            | l # ls \<Rightarrow> (c # l) # ls))"

text \<open>
  The segments of a normalised path, built from the last kept one back: an empty
  segment and \<^verbatim>\<open>.\<close> are dropped, \<^verbatim>\<open>..\<close> removes the segment before it (and stays
  only at the head of a relative path).
\<close>

fun normalize_segments :: "bool \<Rightarrow> string list \<Rightarrow> string list \<Rightarrow> string list" where
  "normalize_segments absolute kept [] = rev kept"
| "normalize_segments absolute kept (seg # segs) =
     (if seg = [] \<or> seg = ''.'' then normalize_segments absolute kept segs
      else if seg = ''..''
      then (case kept of
              [] \<Rightarrow> normalize_segments absolute (if absolute then [] else [''..'']) segs
            | k # ks \<Rightarrow>
                if k = ''..'' then normalize_segments absolute (''..'' # k # ks) segs
                else normalize_segments absolute ks segs)
      else normalize_segments absolute (seg # kept) segs)"

definition posix_normalize :: "string \<Rightarrow> string" where
  "posix_normalize p =
     (if p = [] then ''.''
      else (let absolute = (hd p = CHR ''/'');
                trailing = (last p = CHR ''/'');
                body = join ''/'' (normalize_segments absolute [] (split_slash p))
            in if body = [] then (if absolute then ''/'' else if trailing then ''./'' else ''.'')
               else (if absolute then ''/'' else []) @ body @ (if trailing then ''/'' else [])))"

definition posix_join :: "string list \<Rightarrow> string" where
  "posix_join parts =
     (if filter (\<lambda>part. part \<noteq> []) parts = [] then ''.''
      else posix_normalize (join ''/'' (filter (\<lambda>part. part \<noteq> []) parts)))"

text \<open>
  \<^verbatim>\<open>path.dirname\<close>: the text before the last slash that is followed by a segment,
  trailing slashes aside.
\<close>

definition posix_dirname :: "string \<Rightarrow> string" where
  "posix_dirname p =
     (if p = [] then ''.''
      else (let stem = rev (dropWhile (\<lambda>c. c = CHR ''/'') (rev (tl p)));
                cut = rev (dropWhile (\<lambda>c. c \<noteq> CHR ''/'') (rev stem))
            in if cut = [] then (if hd p = CHR ''/'' then ''/'' else ''.'')
               else if hd p = CHR ''/'' \<and> length cut = 1 then ''//''
               else hd p # butlast cut))"

text \<open>
  The text of a value that is not a string: a number of this runtime is an integer
  and prints as its digits; an array prints its elements joined by commas, an
  element that is null as the empty text; an object prints as \<^verbatim>\<open>[object Object]\<close>,
  unless it has a member called \<^verbatim>\<open>toString\<close>, which is then not callable, and the
  conversion throws.
\<close>

fun value_text :: "json \<Rightarrow> exn + string"
  and element_texts :: "json list \<Rightarrow> exn + string list" where
  "value_text JNull = Inr ''null''"
| "value_text (JBool b) = Inr (if b then ''true'' else ''false'')"
| "value_text (JStr s) = Inr s"
| "value_text (JNum (Finite q)) = Inr (show_int (floor q))"
| "value_text (JNum (Infinite positive)) = Inr (if positive then ''Infinity'' else ''-Infinity'')"
| "value_text (JArr xs) =
     (case element_texts xs of Inl e \<Rightarrow> Inl e | Inr ts \<Rightarrow> Inr (join '','' ts))"
| "value_text (JObj kvs) =
     (if ''toString'' \<in> set (map fst kvs)
      then Inl (Exn ''TypeError: Cannot convert object to primitive value'')
      else Inr ''[object Object]'')"
| "element_texts [] = Inr []"
| "element_texts (x # xs) =
     (case (if x = JNull then Inr [] else value_text x) of
        Inl e \<Rightarrow> Inl e
      | Inr t \<Rightarrow> (case element_texts xs of Inl e \<Rightarrow> Inl e | Inr ts \<Rightarrow> Inr (t # ts)))"

text \<open>
  \<open>ToString\<close> and \<open>greater_than\<close> are read only when a result event carries a
  result that is not a string, which none of the inputs evaluated below does.
  \<open>greater_than\<close> is filled in for numbers, booleans and null.
\<close>

definition posix_runtime :: runtime where
  "posix_runtime =
     \<lparr>JSON_parse = parse_json_text,
      ToString = value_text,
      greater_than = (\<lambda>v n. case v of
                                JNum (Finite q) \<Rightarrow> of_int n < q
                              | JNum (Infinite positive) \<Rightarrow> positive
                              | JBool b \<Rightarrow> n < (if b then 1 else 0)
                              | JNull \<Rightarrow> n < 0
                              | other \<Rightarrow> False),
      not_a_function = Exn ''TypeError: output.startsWith is not a function'',
      path_join = posix_join,
      path_dirname = posix_dirname,
      import_meta_dir = ''/repo/adws/bun_modules'',
      process_cwd = ''/repo''\<rparr>"

section \<open>Inputs to evaluate on\<close>

definition success_line :: string where
  \<open>success_line =
     ''{"type":"result","subtype":"success","is_error":false,"result":"Done","session_id":"abc123"}''\<close>

definition error_line :: string where
  \<open>error_line =
     ''{"type":"result","subtype":"success","is_error":true,"result":"bad","session_id":"s1"}''\<close>

definition crashed_line :: string where
  \<open>crashed_line =
     ''{"type":"result","subtype":"error_during_execution","is_error":false,"session_id":"s2"}''\<close>

definition system_line :: string where
  \<open>system_line = ''{"type":"system","subtype":"init"}''\<close>

definition sample_request :: AgentPromptRequest where
  "sample_request =
     \<lparr>prompt = ''/build app'', adw_id = ''abc12345'', agent_name = ''ops'', model = SONNET,
      dangerously_skip_permissions = False,
      output_file = ''/repo/agents/abc12345/ops/cc_raw_output.jsonl'',
      working_dir = None\<rparr>"

text \<open>A run in which nothing fails: the wrapper exits with 0 after a successful result.\<close>

definition good_run :: run_io where
  "good_run =
     \<lparr>placeholder_write = None, spawn_exit = Inr 0,
      jsonl_text = Inr (system_line @ [newline] @ success_line @ [newline]),
      json_write = None, final_read = Inr ''[]'', final_write = None,
      stderr_text = Inr []\<rparr>"

text \<open>A run in which the agent fails: exit code 1, no output, a line on standard error.\<close>

definition failed_run :: run_io where
  "failed_run =
     \<lparr>placeholder_write = None, spawn_exit = Inr 1, jsonl_text = Inr [],
      json_write = None, final_read = Inr ''[]'', final_write = None,
      stderr_text = Inr ''Error: Claude Code command failed with exit code 1''\<rparr>"

text \<open>A run whose result event has the subtype of a crash and no error flag.\<close>

definition crashed_run :: run_io where
  "crashed_run = good_run\<lparr>jsonl_text := Inr (system_line @ [newline] @ crashed_line)\<rparr>"

definition sample_template_request :: AgentTemplateRequest where
  "sample_template_request =
     \<lparr>t_agent_name = ''ops'', slash_command = ''/build'', args = [''app''],
      t_adw_id = ''abc12345'', t_model = SONNET, t_working_dir = None\<rparr>"

definition initial_world :: world where
  "initial_world = \<lparr>invocations = 0, trace = []\<rparr>"

text \<open>An environment of the wrapper in which every check passes and the agent succeeds.\<close>

definition sample_sh_env :: sh_env where
  "sample_sh_env =
     \<lparr>script_name = ''/repo/adws/bash/claude-code-exec.sh'', CLAUDE_CODE_PATH = None,
      is_directory = (\<lambda>d. d = ''/repo''), command_found = (\<lambda>c. c = ''claude''),
      is_regular_file = (\<lambda>f. False), get_safe_env_status = 0, mkdir_status = 0,
      cd_succeeds = True, agent_status = 0\<rparr>"

definition sample_argv :: "string list" where
  "sample_argv = [''/build app'', ''sonnet'', ''/repo/agents/a/ops/cc_raw_output.jsonl'',
                  ''/repo'', [], ''false'']"

section \<open>Properties\<close>

subsection \<open>Shared lemmas\<close>

lemma find_result_is_result:
  "find_result ms = Some (Some m) \<Longrightarrow> m \<noteq> JNull \<and> js_prop m ''type'' = Some (JStr ''result'')"
  by (induction ms) (auto split: if_splits)

lemma parsed_result_is_result:
  assumes "snd (parseJSONLOutput rt file_text) = Some rm"
  shows "rm \<noteq> JNull \<and> js_prop rm ''type'' = Some (JStr ''result'')"
  using assms
  by (auto simp: parseJSONLOutput_def Let_def dest: find_result_is_result
           split: sum.splits option.splits)

lemma js_prop_Some_truthy: "js_prop m k = Some v \<Longrightarrow> truthy (Some m)"
  by (cases m) auto

lemma parsed_result_truthy:
  "snd (parseJSONLOutput rt file_text) = Some rm \<Longrightarrow> truthy (Some rm)"
  using parsed_result_is_result js_prop_Some_truthy by blast

lemma js_opt_prop_Some: "m \<noteq> JNull \<Longrightarrow> js_opt_prop (Some m) k = js_prop m k"
  by (cases m) auto

text \<open>
  Once the placeholder is written, the wrapper has exited and the JSON array file is
  written, the response is the classification, with a throw caught.
\<close>

lemma executeClaudeCode_classified:
  assumes "placeholder_write io = None" and "spawn_exit io = Inr exitCode"
    and "json_write io = None"
  shows "fst (executeClaudeCode rt request io) =
           catch_error (classify rt exitCode (snd (parseJSONLOutput rt (jsonl_text io)))
                          (stderr_text io))"
  using assms
  by (simp add: executeClaudeCode_def executeClaudeCode_try_def convertJSONLToJSON_def
        Let_def split: result.splits prod.splits)

text \<open>The response of \<^verbatim>\<open>executeClaudeCode\<close>, by what the run meets.\<close>

lemma executeClaudeCode_cases:
  "fst (executeClaudeCode rt request io) =
     (case placeholder_write io of
        Some e \<Rightarrow> Throw e
      | None \<Rightarrow>
          (case spawn_exit io of
             Inl e \<Rightarrow> Return (execution_error e)
           | Inr exitCode \<Rightarrow>
               (case json_write io of
                  Some e \<Rightarrow> Return (execution_error e)
                | None \<Rightarrow>
                    catch_error (classify rt exitCode (snd (parseJSONLOutput rt (jsonl_text io)))
                                   (stderr_text io)))))"
  by (simp add: executeClaudeCode_def executeClaudeCode_try_def convertJSONLToJSON_def
        catch_error_def Let_def split: option.splits sum.splits result.splits prod.splits)

lemma truthy_SomeD: "truthy v \<Longrightarrow> \<exists>m. v = Some m \<and> m \<noteq> JNull"
  by (cases v rule: truthy.cases) auto

lemma classify_Return_codes:
  assumes "classify rt c rmsg se = Return r"
  shows "(retry_code r \<noteq> NONE \<longrightarrow> \<not> success r)
       \<and> (retry_code r = NONE \<longrightarrow> success r = (\<not> truthy (js_opt_prop rmsg ''is_error'')))"
proof (cases "c = 0 \<and> truthy rmsg")
  case True
  then obtain m where m: "rmsg = Some m" "m \<noteq> JNull" using truthy_SomeD by blast
  show ?thesis
    using assms True m
    by (auto simp: classify_def Let_def js_opt_prop_Some split: if_splits json.splits option.splits)
next
  case False
  then show ?thesis
    using assms
    by (auto simp: classify_def Let_def timeout_response_def
             split: if_splits sum.splits option.splits)
qed

text \<open>Plain truncation never goes beyond the limit of 800 the executor passes.\<close>

lemma lastIndexOf_le: "lastIndexOf s c pos \<le> max pos 0"
proof -
  let ?start = "min (max pos 0) (int (length s) - 1)"
  let ?hits = "filter (\<lambda>k. s ! k = c) [0 ..< nat (?start + 1)]"
  show ?thesis
  proof (cases "?hits = []")
    case True
    then show ?thesis by (simp add: lastIndexOf_def Let_def)
  next
    case False
    then have "last ?hits \<in> set ?hits" by (rule last_in_set)
    then have "last ?hits < nat (?start + 1)" by simp
    then have "int (last ?hits) \<le> max pos 0" by linarith
    with False show ?thesis by (simp add: lastIndexOf_def Let_def)
  qed
qed

lemma length_slice0: "0 \<le> e \<Longrightarrow> int (length (slice0 s e)) \<le> e"
  by (simp add: slice0_def)

lemma truncateOutput_plain:
  assumes "\<not> (startsWith s jsonl_prefix \<and> js_includes s (newline # jsonl_prefix))"
  shows "\<exists>t. truncateOutput rt s 800 default_suffix = Some t
             \<and> length t \<le> 800 \<and> (length s \<le> 800 \<longrightarrow> t = s)"
proof (cases "int (length s) \<le> 800")
  case True
  then show ?thesis using assms by (subst truncateOutput.simps) auto
next
  case False
  have suffix: "int (length default_suffix) = 15" by (simp add: default_suffix_def)
  let ?n = "lastIndexOf s newline 785"
  let ?p = "lastIndexOf s CHR '' '' 785"
  have n: "?n \<le> 785" using lastIndexOf_le [of s newline 785] by simp
  have p: "?p \<le> 785" using lastIndexOf_le [of s "CHR '' ''" 785] by simp
  have ln: "0 < ?n \<Longrightarrow> int (length (slice0 s ?n @ default_suffix)) \<le> 800"
    using length_slice0 [of ?n s] n suffix by simp
  have lp: "0 < ?p \<Longrightarrow> int (length (slice0 s ?p @ default_suffix)) \<le> 800"
    using length_slice0 [of ?p s] p suffix by simp
  have l0: "int (length (slice0 s 785 @ default_suffix)) \<le> 800"
    using length_slice0 [of 785 s] suffix by simp
  show ?thesis
    using assms False ln lp l0 suffix
    by (subst truncateOutput.simps) (auto simp: Let_def)
qed

subsection \<open>The subtype of a crash overrides the error flag\<close>

text \<open>
  C6, as stated, fails in a run that an exception cuts short: the wrapper exits with
  code 0, the result event has the subtype \<^verbatim>\<open>error_during_execution\<close>, the JSON array
  file cannot be written, and the executor returns the retry code \<open>EXECUTION_ERROR\<close>.
\<close>

theorem crash_subtype_counterexample:
  "spawn_exit (crashed_run\<lparr>json_write := Some (Exn ''ENOSPC: no space left on device'')\<rparr>)
     = Inr 0
   \<and> snd (parseJSONLOutput posix_runtime
            (jsonl_text (crashed_run\<lparr>json_write := Some (Exn ''ENOSPC: no space left on device'')\<rparr>)))
     = Some (JObj [(''type'', JStr ''result''), (''subtype'', JStr ''error_during_execution''),
                   (''is_error'', JBool False), (''session_id'', JStr ''s2'')])
   \<and> fst (executeClaudeCode posix_runtime sample_request
            (crashed_run\<lparr>json_write := Some (Exn ''ENOSPC: no space left on device'')\<rparr>))
     = Return \<lparr>output = JStr ''Error executing Claude Code: ENOSPC: no space left on device'',
               success = False, session_id = None, retry_code = EXECUTION_ERROR\<rparr>"
  by code_simp

text \<open>
  C6, amended. In every run in which the wrapper exits with code 0, the JSON array
  file is written (so that no exception cuts the run short) and the result event the
  parser returns has the subtype \<^verbatim>\<open>error_during_execution\<close>, the executor returns
  \<open>success = False\<close> and the retry code \<open>ERROR_DURING_EXECUTION\<close>, whatever the
  \<^verbatim>\<open>is_error\<close> flag of the event is.
\<close>

theorem error_during_execution_overrides_is_error:
  assumes "placeholder_write io = None" and "spawn_exit io = Inr 0"
    and "json_write io = None"
    and "snd (parseJSONLOutput rt (jsonl_text io)) = Some rm"
    and "js_prop rm ''subtype'' = Some (JStr ''error_during_execution'')"
  shows "fst (executeClaudeCode rt request io) =
           Return \<lparr>output = JStr ''Error during execution: Agent encountered an error and did not return a result'',
                   success = False, session_id = js_prop rm ''session_id'',
                   retry_code = ERROR_DURING_EXECUTION\<rparr>"
proof -
  have "truthy (Some rm)" using assms(4) by (rule parsed_result_truthy)
  then have "classify rt 0 (Some rm) (stderr_text io) =
           Return \<lparr>output = JStr ''Error during execution: Agent encountered an error and did not return a result'',
                   success = False, session_id = js_prop rm ''session_id'',
                   retry_code = ERROR_DURING_EXECUTION\<rparr>"
    using assms(5) by (simp add: classify_def Let_def js_or_def)
  then show ?thesis
    using executeClaudeCode_classified [OF assms(1) assms(2) assms(3)] assms(4)
    by (simp add: catch_error_def)
qed

text \<open>The theorem at \<open>crashed_run\<close>, whose result event has \<^verbatim>\<open>is_error\<close> false.\<close>

theorem error_during_execution_witness:
  "placeholder_write crashed_run = None \<and> spawn_exit crashed_run = Inr 0
   \<and> json_write crashed_run = None
   \<and> js_prop (the (snd (parseJSONLOutput posix_runtime (jsonl_text crashed_run)))) ''is_error''
       = Some (JBool False)
   \<and> fst (executeClaudeCode posix_runtime sample_request crashed_run) =
       Return \<lparr>output = JStr ''Error during execution: Agent encountered an error and did not return a result'',
               success = False, session_id = Some (JStr ''s2''),
               retry_code = ERROR_DURING_EXECUTION\<rparr>"
proof -
  have h1: "placeholder_write crashed_run = None" by (simp add: crashed_run_def good_run_def)
  have h2: "spawn_exit crashed_run = Inr 0" by (simp add: crashed_run_def good_run_def)
  have h3: "json_write crashed_run = None" by (simp add: crashed_run_def good_run_def)
  have h4: "snd (parseJSONLOutput posix_runtime (jsonl_text crashed_run)) =
              Some (JObj [(''type'', JStr ''result''), (''subtype'', JStr ''error_during_execution''),
                          (''is_error'', JBool False), (''session_id'', JStr ''s2'')])"
    by code_simp
  have h5: "js_prop (JObj [(''type'', JStr ''result''), (''subtype'', JStr ''error_during_execution''),
                          (''is_error'', JBool False), (''session_id'', JStr ''s2'')]) ''subtype''
              = Some (JStr ''error_during_execution'')"
    by simp
  show ?thesis
    using error_during_execution_overrides_is_error [OF h1 h2 h3 h4 h5, of sample_request]
      h1 h2 h3 h4
    by simp
qed

subsection \<open>Retry codes and success\<close>

text \<open>
  C1, as stated, fails: a run that exits with 0 and whose result event has
  \<^verbatim>\<open>is_error\<close> true returns the retry code \<open>NONE\<close> with \<open>success = False\<close>.
\<close>

theorem none_with_failure_counterexample:
  "fst (executeClaudeCode posix_runtime sample_request (good_run\<lparr>jsonl_text := Inr error_line\<rparr>))
     = Return \<lparr>output = JStr ''bad'', success = False, session_id = Some (JStr ''s1''),
               retry_code = NONE\<rparr>"
  by code_simp

text \<open>
  C1, amended. For every response \<^verbatim>\<open>executeClaudeCode\<close> returns, a retry code other
  than \<open>NONE\<close> implies \<open>success = False\<close>; and with the retry code \<open>NONE\<close>,
  \<open>success\<close> is the negation of the \<^verbatim>\<open>is_error\<close> flag of the result event, so \<open>NONE\<close> is
  paired with \<open>success = True\<close> only when that flag is not set.
\<close>

theorem error_codes_imply_failure:
  assumes "fst (executeClaudeCode rt request io) = Return r"
  shows "(retry_code r \<noteq> NONE \<longrightarrow> \<not> success r)
       \<and> (retry_code r = NONE \<longrightarrow>
            success r = (\<not> truthy (js_opt_prop (snd (parseJSONLOutput rt (jsonl_text io))) ''is_error'')))"
proof -
  consider (early) e where "r = execution_error e"
    | (classified) c where
        "classify rt c (snd (parseJSONLOutput rt (jsonl_text io))) (stderr_text io) = Return r"
    using assms unfolding executeClaudeCode_cases
    by (auto simp: catch_error_def split: option.splits sum.splits result.splits)
  then show ?thesis
  proof cases
    case early
    then show ?thesis by (simp add: execution_error_def)
  next
    case classified
    then show ?thesis by (rule classify_Return_codes)
  qed
qed

text \<open>The theorem at a run of a failing agent and at a successful run.\<close>

theorem error_codes_imply_failure_witness:
  "fst (executeClaudeCode posix_runtime sample_request failed_run)
     = Return \<lparr>output = JStr ''Error: Claude Code command failed with exit code 1'',
               success = False, session_id = None, retry_code = CLAUDE_CODE_ERROR\<rparr>
   \<and> \<not> success \<lparr>output = JStr ''Error: Claude Code command failed with exit code 1'',
                  success = False, session_id = None, retry_code = CLAUDE_CODE_ERROR\<rparr>
   \<and> fst (executeClaudeCode posix_runtime sample_request good_run)
     = Return \<lparr>output = JStr ''Done'', success = True, session_id = Some (JStr ''abc123''),
               retry_code = NONE\<rparr>
   \<and> \<not> truthy (js_opt_prop (snd (parseJSONLOutput posix_runtime (jsonl_text good_run))) ''is_error'')"
proof -
  have failed: "fst (executeClaudeCode posix_runtime sample_request failed_run)
     = Return \<lparr>output = JStr ''Error: Claude Code command failed with exit code 1'',
               success = False, session_id = None, retry_code = CLAUDE_CODE_ERROR\<rparr>"
    by code_simp
  have good: "fst (executeClaudeCode posix_runtime sample_request good_run)
     = Return \<lparr>output = JStr ''Done'', success = True, session_id = Some (JStr ''abc123''),
               retry_code = NONE\<rparr>"
    by code_simp
  show ?thesis
    using error_codes_imply_failure [OF failed] error_codes_imply_failure [OF good] failed good
    by simp
qed

subsection \<open>Exceptions\<close>

text \<open>
  C3, as stated, fails for the first step: the placeholder that makes the output
  directory exist is written before the \<^verbatim>\<open>try\<close> block, and an exception raised there
  leaves \<^verbatim>\<open>executeClaudeCode\<close> as a throw, not as a response.
\<close>

theorem placeholder_failure_counterexample:
  "fst (executeClaudeCode posix_runtime sample_request
          (good_run\<lparr>placeholder_write := Some (Exn ''EACCES: permission denied'')\<rparr>))
     = Throw (Exn ''EACCES: permission denied'')"
  by code_simp

text \<open>The outcome of the \<^verbatim>\<open>try\<close> block, by what the run meets.\<close>

lemma try_response:
  "fst (executeClaudeCode_try rt request io bashScript argv) =
     (case spawn_exit io of
        Inl e \<Rightarrow> Throw e
      | Inr exitCode \<Rightarrow>
          (case json_write io of
             Some e \<Rightarrow> Throw e
           | None \<Rightarrow> classify rt exitCode (snd (parseJSONLOutput rt (jsonl_text io)))
                       (stderr_text io)))"
  by (simp add: executeClaudeCode_try_def convertJSONLToJSON_def Let_def
           split: option.splits sum.splits result.splits prod.splits)

lemma classify_stderr_failure:
  assumes "\<not> (exitCode = 0 \<and> truthy rmsg)" and "exitCode \<noteq> 124"
  shows "classify rt exitCode rmsg (Inl e) = Throw e"
  using assms by (auto simp: classify_def)

text \<open>
  C3, amended. Once the placeholder is written, an exception raised inside the
  \<^verbatim>\<open>try\<close> block is returned, never thrown: whatever the block throws (a failure to
  launch the wrapper or to wait for it, to write the JSON array file, to read the
  standard error, or an exception of the classification), \<^verbatim>\<open>executeClaudeCode\<close>
  returns the response with the retry code \<open>EXECUTION_ERROR\<close>, \<open>success = False\<close> and
  the output \<^verbatim>\<open>Error executing Claude Code: \<close> followed by the description of that
  exception.
\<close>

theorem exceptions_in_try_block_are_classified:
  assumes "placeholder_write io = None"
  shows "(\<forall>bashScript argv. fst (executeClaudeCode_try rt request io bashScript argv) = Throw e \<longrightarrow>
            fst (executeClaudeCode rt request io) = Return (execution_error e))
       \<and> (spawn_exit io = Inl e \<longrightarrow>
            fst (executeClaudeCode rt request io) = Return (execution_error e))
       \<and> (spawn_exit io = Inr exitCode \<and> json_write io = Some e \<longrightarrow>
            fst (executeClaudeCode rt request io) = Return (execution_error e))
       \<and> (spawn_exit io = Inr exitCode \<and> json_write io = None
            \<and> \<not> (exitCode = 0 \<and> truthy (snd (parseJSONLOutput rt (jsonl_text io))))
            \<and> exitCode \<noteq> 124 \<and> stderr_text io = Inl e \<longrightarrow>
            fst (executeClaudeCode rt request io) = Return (execution_error e))
       \<and> (spawn_exit io = Inr exitCode \<and> json_write io = None
            \<and> classify rt exitCode (snd (parseJSONLOutput rt (jsonl_text io))) (stderr_text io)
                = Throw e \<longrightarrow>
            fst (executeClaudeCode rt request io) = Return (execution_error e))
       \<and> (\<forall>e'. fst (executeClaudeCode rt request io) \<noteq> Throw e')
       \<and> success (execution_error e) = False
       \<and> retry_code (execution_error e) = EXECUTION_ERROR
       \<and> output (execution_error e) = JStr (''Error executing Claude Code: '' @ describe e)"
proof (intro conjI allI impI)
  fix bashScript argv
  assume "fst (executeClaudeCode_try rt request io bashScript argv) = Throw e"
  then show "fst (executeClaudeCode rt request io) = Return (execution_error e)"
    using assms unfolding try_response executeClaudeCode_cases
    by (auto simp: catch_error_def split: sum.splits option.splits)
next
  assume "spawn_exit io = Inl e"
  then show "fst (executeClaudeCode rt request io) = Return (execution_error e)"
    using assms unfolding executeClaudeCode_cases by simp
next
  assume "spawn_exit io = Inr exitCode \<and> json_write io = Some e"
  then show "fst (executeClaudeCode rt request io) = Return (execution_error e)"
    using assms unfolding executeClaudeCode_cases by simp
next
  assume a: "spawn_exit io = Inr exitCode \<and> json_write io = None
            \<and> \<not> (exitCode = 0 \<and> truthy (snd (parseJSONLOutput rt (jsonl_text io))))
            \<and> exitCode \<noteq> 124 \<and> stderr_text io = Inl e"
  then have "classify rt exitCode (snd (parseJSONLOutput rt (jsonl_text io))) (stderr_text io)
               = Throw e"
    using classify_stderr_failure [of exitCode "snd (parseJSONLOutput rt (jsonl_text io))" rt e]
    by simp
  then show "fst (executeClaudeCode rt request io) = Return (execution_error e)"
    using assms a unfolding executeClaudeCode_cases by (simp add: catch_error_def)
next
  assume "spawn_exit io = Inr exitCode \<and> json_write io = None
            \<and> classify rt exitCode (snd (parseJSONLOutput rt (jsonl_text io))) (stderr_text io)
                = Throw e"
  then show "fst (executeClaudeCode rt request io) = Return (execution_error e)"
    using assms unfolding executeClaudeCode_cases by (simp add: catch_error_def)
next
  fix e'
  show "fst (executeClaudeCode rt request io) \<noteq> Throw e'"
    using assms unfolding executeClaudeCode_cases
    by (auto simp: catch_error_def split: sum.splits option.splits result.splits)
qed (simp_all add: execution_error_def)

text \<open>
  The theorem at a run in which \<^verbatim>\<open>Bun.spawn\<close> throws and at a run in which the
  standard error of a failed wrapper cannot be read.
\<close>

theorem exceptions_in_try_block_witness:
  "placeholder_write (good_run\<lparr>spawn_exit := Inl (Exn ''Error: spawn ENOENT'')\<rparr>) = None
   \<and> fst (executeClaudeCode posix_runtime sample_request
             (good_run\<lparr>spawn_exit := Inl (Exn ''Error: spawn ENOENT'')\<rparr>))
       = Return \<lparr>output = JStr ''Error executing Claude Code: Error: spawn ENOENT'',
                 success = False, session_id = None, retry_code = EXECUTION_ERROR\<rparr>
   \<and> placeholder_write (failed_run\<lparr>stderr_text := Inl (Exn ''Error: stream closed'')\<rparr>) = None
   \<and> fst (executeClaudeCode posix_runtime sample_request
             (failed_run\<lparr>stderr_text := Inl (Exn ''Error: stream closed'')\<rparr>))
       = Return \<lparr>output = JStr ''Error executing Claude Code: Error: stream closed'',
                 success = False, session_id = None, retry_code = EXECUTION_ERROR\<rparr>"
proof -
  let ?io1 = "good_run\<lparr>spawn_exit := Inl (Exn ''Error: spawn ENOENT'')\<rparr>"
  let ?io2 = "failed_run\<lparr>stderr_text := Inl (Exn ''Error: stream closed'')\<rparr>"
  have h1: "placeholder_write ?io1 = None" by (simp add: good_run_def)
  have h2: "placeholder_write ?io2 = None" by (simp add: failed_run_def)
  have s1: "spawn_exit ?io1 = Inl (Exn ''Error: spawn ENOENT'')" by (simp add: good_run_def)
  have s2: "spawn_exit ?io2 = Inr 1 \<and> json_write ?io2 = None
            \<and> \<not> ((1::int) = 0 \<and> truthy (snd (parseJSONLOutput posix_runtime (jsonl_text ?io2))))
            \<and> (1::int) \<noteq> 124 \<and> stderr_text ?io2 = Inl (Exn ''Error: stream closed'')"
    by (simp add: failed_run_def)
  show ?thesis
    using exceptions_in_try_block_are_classified
            [OF h1, of posix_runtime sample_request "Exn ''Error: spawn ENOENT''" 0]
      exceptions_in_try_block_are_classified
            [OF h2, of posix_runtime sample_request "Exn ''Error: stream closed''" 1]
      h1 h2 s1 s2
    by (simp add: execution_error_def)
qed

subsection \<open>The audit writers\<close>

text \<open>
  C4, as stated, fails for two of the three writers. With the JSON array file
  failing to be written, the run that would have returned a success returns an
  \<open>EXECUTION_ERROR\<close> response; with the prompt file failing to be written,
  \<^verbatim>\<open>executeTemplate\<close> throws.
\<close>

theorem audit_failure_counterexample:
  "fst (executeClaudeCode posix_runtime sample_request good_run)
     = Return \<lparr>output = JStr ''Done'', success = True, session_id = Some (JStr ''abc123''),
               retry_code = NONE\<rparr>
   \<and> fst (executeClaudeCode posix_runtime sample_request
             (good_run\<lparr>json_write := Some (Exn ''ENOSPC: no space left on device'')\<rparr>))
     = Return \<lparr>output = JStr ''Error executing Claude Code: ENOSPC: no space left on device'',
               success = False, session_id = None, retry_code = EXECUTION_ERROR\<rparr>
   \<and> fst (executeTemplate posix_runtime sample_template_request
             \<lparr>template_dir_write = None, prompt_dir_write = None,
              prompt_write = Some (Exn ''ENOSPC: no space left on device'')\<rparr>
             (\<lambda>i. good_run) initial_world)
     = Throw (Exn ''ENOSPC: no space left on device'')"
  by code_simp

text \<open>
  C4, amended. Failures of the final-object snapshot writer never change the
  response: the writer returns null when its read or its write fails, and whatever
  the read of the JSON file and the write of the snapshot do, \<^verbatim>\<open>executeClaudeCode\<close>
  returns the same.
\<close>

theorem snapshot_failures_do_not_change_response:
  "fst (executeClaudeCode rt request (io\<lparr>final_read := r, final_write := w\<rparr>))
     = fst (executeClaudeCode rt request io)
   \<and> fst (saveLastEntryAsRawResult rt jsonFile (io\<lparr>final_read := Inl e\<rparr>)) = None
   \<and> fst (saveLastEntryAsRawResult rt jsonFile (io\<lparr>final_write := Some e\<rparr>)) = None"
proof (intro conjI)
  show "fst (executeClaudeCode rt request (io\<lparr>final_read := r, final_write := w\<rparr>))
     = fst (executeClaudeCode rt request io)"
    unfolding executeClaudeCode_cases by (simp split: option.splits sum.splits)
  show "fst (saveLastEntryAsRawResult rt jsonFile (io\<lparr>final_read := Inl e\<rparr>)) = None"
    by (simp add: saveLastEntryAsRawResult_def)
  show "fst (saveLastEntryAsRawResult rt jsonFile (io\<lparr>final_write := Some e\<rparr>)) = None"
    by (simp add: saveLastEntryAsRawResult_def Let_def
             split: sum.splits option.splits json.splits list.splits)
qed

subsection \<open>The output of an agent error\<close>

text \<open>
  C5, as stated, fails on the order: with exit code 1, a line on standard error and
  a result event whose \<^verbatim>\<open>is_error\<close> is true, the output is the result text of the
  event, not the standard error.
\<close>

theorem agent_error_priority_counterexample:
  "fst (executeClaudeCode posix_runtime sample_request (failed_run\<lparr>jsonl_text := Inr error_line\<rparr>))
     = Return \<lparr>output = JStr ''Claude Code error: bad'', success = False,
               session_id = Some (JStr ''s1''), retry_code = CLAUDE_CODE_ERROR\<rparr>
   \<and> stderr_text (failed_run\<lparr>jsonl_text := Inr error_line\<rparr>)
       = Inr ''Error: Claude Code command failed with exit code 1''"
  by code_simp

text \<open>
  C5, amended. When the wrapper exits with a code other than 0 and 124 (and no
  exception cuts the run short), the executor returns the retry code
  \<open>CLAUDE_CODE_ERROR\<close> with \<open>success = False\<close> and the output chosen in this order: the
  result text of the result event, prefixed with \<^verbatim>\<open>Claude Code error: \<close>, when there is
  a result event whose \<^verbatim>\<open>is_error\<close> is true; else the captured standard error when it
  is not empty; else \<^verbatim>\<open>Claude Code command failed with exit code N\<close>. The chosen text
  goes through \<^verbatim>\<open>truncateOutput\<close> with the limit 800, and what that returns is the
  output: unless the chosen text is JSONL-shaped, the output has at most 800
  characters and is the chosen text itself when that has at most 800.
\<close>

theorem agent_error_output_priority:
  assumes "placeholder_write io = None" and "spawn_exit io = Inr exitCode"
    and "exitCode \<noteq> 0" and "exitCode \<noteq> 124"
    and "json_write io = None" and "stderr_text io = Inr stderr"
    and "rmsg = snd (parseJSONLOutput rt (jsonl_text io))"
    and "truthy (js_opt_prop rmsg ''is_error'')
           \<longrightarrow> js_template rt (js_opt_prop rmsg ''result'') = Inr result_text"
    and "chosen =
           (if truthy (js_opt_prop rmsg ''is_error'') then ''Claude Code error: '' @ result_text
            else if stderr \<noteq> [] then stderr
            else ''Claude Code command failed with exit code '' @ show_int exitCode)"
  shows "(\<forall>truncated. truncateOutput rt chosen 800 default_suffix = Some truncated \<longrightarrow>
            fst (executeClaudeCode rt request io) =
              Return \<lparr>output = JStr truncated, success = False,
                      session_id = js_opt_prop rmsg ''session_id'',
                      retry_code = CLAUDE_CODE_ERROR\<rparr>)
       \<and> (\<not> (startsWith chosen jsonl_prefix \<and> js_includes chosen (newline # jsonl_prefix)) \<longrightarrow>
            (\<exists>truncated. fst (executeClaudeCode rt request io) =
                            Return \<lparr>output = JStr truncated, success = False,
                                    session_id = js_opt_prop rmsg ''session_id'',
                                    retry_code = CLAUDE_CODE_ERROR\<rparr>
                        \<and> length truncated \<le> 800
                        \<and> (length chosen \<le> 800 \<longrightarrow> truncated = chosen)))"
proof -
  have run: "fst (executeClaudeCode rt request io) =
           Return \<lparr>output = JStr truncated, success = False,
                   session_id = js_opt_prop rmsg ''session_id'',
                   retry_code = CLAUDE_CODE_ERROR\<rparr>"
    if "truncateOutput rt chosen 800 default_suffix = Some truncated" for truncated
  proof -
    have "classify rt exitCode rmsg (stderr_text io) =
           Return \<lparr>output = JStr truncated, success = False,
                   session_id = js_opt_prop rmsg ''session_id'',
                   retry_code = CLAUDE_CODE_ERROR\<rparr>"
      using assms(3,4,6,8,9) that by (auto simp: classify_def)
    then show ?thesis
      using assms(1,2,5,7) unfolding executeClaudeCode_cases by (simp add: catch_error_def)
  qed
  show ?thesis
  proof (intro conjI allI impI)
    fix truncated
    assume "truncateOutput rt chosen 800 default_suffix = Some truncated"
    then show "fst (executeClaudeCode rt request io) =
           Return \<lparr>output = JStr truncated, success = False,
                   session_id = js_opt_prop rmsg ''session_id'',
                   retry_code = CLAUDE_CODE_ERROR\<rparr>"
      by (rule run)
  next
    assume "\<not> (startsWith chosen jsonl_prefix \<and> js_includes chosen (newline # jsonl_prefix))"
    then obtain t where t: "truncateOutput rt chosen 800 default_suffix = Some t"
        "length t \<le> 800" "length chosen \<le> 800 \<longrightarrow> t = chosen"
      using truncateOutput_plain [of chosen rt] by blast
    from run [OF t(1)] t(2,3)
    show "\<exists>truncated. fst (executeClaudeCode rt request io) =
                            Return \<lparr>output = JStr truncated, success = False,
                                    session_id = js_opt_prop rmsg ''session_id'',
                                    retry_code = CLAUDE_CODE_ERROR\<rparr>
                        \<and> length truncated \<le> 800
                        \<and> (length chosen \<le> 800 \<longrightarrow> truncated = chosen)"
      by blast
  qed
qed

text \<open>
  The theorem at three runs that exit with 1: one with an error result event, one
  with standard error only, one with neither.
\<close>

theorem agent_error_output_witness:
  "fst (executeClaudeCode posix_runtime sample_request (failed_run\<lparr>jsonl_text := Inr error_line\<rparr>))
     = Return \<lparr>output = JStr ''Claude Code error: bad'', success = False,
               session_id = Some (JStr ''s1''), retry_code = CLAUDE_CODE_ERROR\<rparr>
   \<and> fst (executeClaudeCode posix_runtime sample_request failed_run)
     = Return \<lparr>output = JStr ''Error: Claude Code command failed with exit code 1'',
               success = False, session_id = None, retry_code = CLAUDE_CODE_ERROR\<rparr>
   \<and> fst (executeClaudeCode posix_runtime sample_request (failed_run\<lparr>stderr_text := Inr []\<rparr>))
     = Return \<lparr>output = JStr ''Claude Code command failed with exit code 1'',
               success = False, session_id = None, retry_code = CLAUDE_CODE_ERROR\<rparr>"
proof -
  let ?rm = "JObj [(''type'', JStr ''result''), (''subtype'', JStr ''success''),
                   (''is_error'', JBool True), (''result'', JStr ''bad''),
                   (''session_id'', JStr ''s1'')]"
  let ?io1 = "failed_run\<lparr>jsonl_text := Inr error_line\<rparr>"
  let ?io3 = "failed_run\<lparr>stderr_text := Inr []\<rparr>"
  have a1: "placeholder_write ?io1 = None" "spawn_exit ?io1 = Inr 1" "json_write ?io1 = None"
       "stderr_text ?io1 = Inr ''Error: Claude Code command failed with exit code 1''"
    by (simp_all add: failed_run_def)
  have a2: "placeholder_write failed_run = None" "spawn_exit failed_run = Inr 1"
       "json_write failed_run = None"
       "stderr_text failed_run = Inr ''Error: Claude Code command failed with exit code 1''"
    by (simp_all add: failed_run_def)
  have a3: "placeholder_write ?io3 = None" "spawn_exit ?io3 = Inr 1" "json_write ?io3 = None"
       "stderr_text ?io3 = Inr []"
    by (simp_all add: failed_run_def)
  have r1: "Some ?rm = snd (parseJSONLOutput posix_runtime (jsonl_text ?io1))" by code_simp
  have r2: "None = snd (parseJSONLOutput posix_runtime (jsonl_text failed_run))" by code_simp
  have r3: "None = snd (parseJSONLOutput posix_runtime (jsonl_text ?io3))" by code_simp
  have t1: "truncateOutput posix_runtime ''Claude Code error: bad'' 800 default_suffix
              = Some ''Claude Code error: bad''"
    by code_simp
  have t2: "truncateOutput posix_runtime ''Error: Claude Code command failed with exit code 1''
              800 default_suffix = Some ''Error: Claude Code command failed with exit code 1''"
    by code_simp
  have t3: "truncateOutput posix_runtime ''Claude Code command failed with exit code 1''
              800 default_suffix = Some ''Claude Code command failed with exit code 1''"
    by code_simp
  have s1: "show_int 1 = ''1''" by code_simp
  have w1: "fst (executeClaudeCode posix_runtime sample_request ?io1)
     = Return \<lparr>output = JStr ''Claude Code error: bad'', success = False,
               session_id = Some (JStr ''s1''), retry_code = CLAUDE_CODE_ERROR\<rparr>"
    using agent_error_output_priority
      [OF a1(1) a1(2) _ _ a1(3) a1(4) r1, of "''bad''" "''Claude Code error: bad''" sample_request]
      t1
    by simp
  have w2: "fst (executeClaudeCode posix_runtime sample_request failed_run)
     = Return \<lparr>output = JStr ''Error: Claude Code command failed with exit code 1'',
               success = False, session_id = None, retry_code = CLAUDE_CODE_ERROR\<rparr>"
    using agent_error_output_priority
      [OF a2(1) a2(2) _ _ a2(3) a2(4) r2,
       of "[]" "''Error: Claude Code command failed with exit code 1''" sample_request]
      t2
    by simp
  have w3: "fst (executeClaudeCode posix_runtime sample_request ?io3)
     = Return \<lparr>output = JStr ''Claude Code command failed with exit code 1'',
               success = False, session_id = None, retry_code = CLAUDE_CODE_ERROR\<rparr>"
    using agent_error_output_priority
      [OF a3(1) a3(2) _ _ a3(3) a3(4) r3,
       of "[]" "''Claude Code command failed with exit code 1''" sample_request]
      t3
    by (simp add: s1)
  show ?thesis using w1 w2 w3 by simp
qed

subsection \<open>The event stream parser\<close>

lemma those_map_all:
  "(\<forall>x \<in> set xs. f x \<noteq> None) \<Longrightarrow> those (map f xs) = Some (map (the \<circ> f) xs)"
  by (induction xs) auto

lemma those_map_some_None:
  "(\<exists>x \<in> set xs. f x = None) \<Longrightarrow> those (map f xs) = None"
  by (induction xs) (auto split: option.splits)

text \<open>Without a null message, the scan finds the last message of type \<^verbatim>\<open>result\<close>.\<close>

lemma find_result_rev:
  assumes "JNull \<notin> set ms"
  shows "find_result (rev ms) =
           Some (case filter (\<lambda>m. js_prop m ''type'' = Some (JStr ''result'')) ms of
                   [] \<Rightarrow> None
                 | r # rs \<Rightarrow> Some (last (r # rs)))"
  using assms
proof (induction ms rule: rev_induct)
  case Nil
  then show ?case by simp
next
  case (snoc m ms)
  then show ?case by (auto simp: split: list.splits)
qed

text \<open>
  C2, as stated, fails: one line that does not parse, before the result event, makes
  the parser return no event and no result event, although the line of the result
  event parses.
\<close>

theorem malformed_line_counterexample:
  "parseJSONLOutput posix_runtime (Inr (''not json'' @ [newline] @ success_line)) = ([], None)
   \<and> JSON_parse posix_runtime ''not json'' = None
   \<and> JSON_parse posix_runtime success_line =
       Some (JObj [(''type'', JStr ''result''), (''subtype'', JStr ''success''),
                   (''is_error'', JBool False), (''result'', JStr ''Done''),
                   (''session_id'', JStr ''abc123'')])"
  by code_simp

text \<open>
  C2, amended. For every output file whose non-blank lines all parse as JSON, none
  of them to null, and hold exactly one result event, the parser returns that result
  event together with every event. A line that fails to parse is not skipped on its
  own: the whole parse is given up, and the parser returns no events and no result
  event.
\<close>

theorem parse_is_all_or_nothing:
  assumes "nonblank = filter (\<lambda>line. js_trim line \<noteq> []) (split_newline (js_trim file_text))"
    and "messages = map (the \<circ> JSON_parse rt) nonblank"
  shows "((\<forall>line \<in> set nonblank. JSON_parse rt line \<noteq> None) \<and> JNull \<notin> set messages
           \<and> filter (\<lambda>m. js_prop m ''type'' = Some (JStr ''result'')) messages = [resultEvent]
          \<longrightarrow> parseJSONLOutput rt (Inr file_text) = (messages, Some resultEvent))
       \<and> ((\<exists>line \<in> set nonblank. JSON_parse rt line = None)
          \<longrightarrow> parseJSONLOutput rt (Inr file_text) = ([], None))"
  using assms
  by (auto simp: parseJSONLOutput_def Let_def those_map_all those_map_some_None find_result_rev
           simp del: those.simps)

text \<open>
  The theorem at a file of two events, the second the result event, and at a file
  whose second line is not JSON.
\<close>

theorem parse_is_all_or_nothing_witness:
  "parseJSONLOutput posix_runtime (Inr (system_line @ [newline] @ success_line @ [newline]))
     = ([JObj [(''type'', JStr ''system''), (''subtype'', JStr ''init'')],
         JObj [(''type'', JStr ''result''), (''subtype'', JStr ''success''),
               (''is_error'', JBool False), (''result'', JStr ''Done''),
               (''session_id'', JStr ''abc123'')]],
        Some (JObj [(''type'', JStr ''result''), (''subtype'', JStr ''success''),
                    (''is_error'', JBool False), (''result'', JStr ''Done''),
                    (''session_id'', JStr ''abc123'')]))
   \<and> parseJSONLOutput posix_runtime (Inr (success_line @ [newline] @ ''Killed'')) = ([], None)"
proof -
  let ?good = "system_line @ [newline] @ success_line @ [newline]"
  let ?bad = "success_line @ [newline] @ ''Killed''"
  let ?lines = "\<lambda>text. filter (\<lambda>line. js_trim line \<noteq> []) (split_newline (js_trim text))"
  let ?result = "JObj [(''type'', JStr ''result''), (''subtype'', JStr ''success''),
                       (''is_error'', JBool False), (''result'', JStr ''Done''),
                       (''session_id'', JStr ''abc123'')]"
  have messages: "map (the \<circ> JSON_parse posix_runtime) (?lines ?good)
                    = [JObj [(''type'', JStr ''system''), (''subtype'', JStr ''init'')], ?result]"
    by code_simp
  have parsed: "\<forall>line \<in> set (?lines ?good). JSON_parse posix_runtime line \<noteq> None"
    by code_simp
  have one: "filter (\<lambda>m. js_prop m ''type'' = Some (JStr ''result''))
               (map (the \<circ> JSON_parse posix_runtime) (?lines ?good)) = [?result]"
    unfolding messages by simp
  have no_null: "JNull \<notin> set (map (the \<circ> JSON_parse posix_runtime) (?lines ?good))"
    unfolding messages by simp
  have broken: "\<exists>line \<in> set (?lines ?bad). JSON_parse posix_runtime line = None"
    by code_simp
  show ?thesis
    using parse_is_all_or_nothing
            [where rt = posix_runtime and file_text = ?good and resultEvent = ?result, OF refl refl]
      parse_is_all_or_nothing
            [where rt = posix_runtime and file_text = ?bad and resultEvent = ?result, OF refl refl]
      parsed one no_null broken messages
    by simp
qed

subsection \<open>Retry\<close>

lemma retry_loop_succeeds_after:
  assumes "attempt + int k \<le> maxRetries"
    and "\<forall>i<k. \<exists>failure. fst (executeClaudeCode rt request (ios (invocations w + i))) = Return failure
                    \<and> \<not> success failure \<and> retry_code failure = CLAUDE_CODE_ERROR"
    and "fst (executeClaudeCode rt request (ios (invocations w + k))) = Return response"
    and "success response"
  shows "fst (retry_loop rt request maxRetries retryDelays ios attempt w) = Return response
       \<and> invocations (snd (retry_loop rt request maxRetries retryDelays ios attempt w))
           = invocations w + k + 1"
  using assms
proof (induction k arbitrary: attempt w)
  case 0
  then show ?case
    by (subst (1 2) retry_loop.simps) (simp add: Let_def)
next
  case (Suc k)
  let ?w1 = "(if attempt > 0
              then w\<lparr>trace := trace w
                     @ [Slept (map_option (\<lambda>d. d * 1000) (delay_at retryDelays (attempt - 1)))]\<rparr>
              else w)"
  let ?ran = "executeClaudeCode rt request (ios (invocations ?w1))"
  let ?w2 = "?w1\<lparr>invocations := Suc (invocations ?w1), trace := trace ?w1 @ snd ?ran\<rparr>"
  from Suc.prems(2) obtain failure where
    f: "fst (executeClaudeCode rt request (ios (invocations w))) = Return failure"
       "\<not> success failure" "retry_code failure = CLAUDE_CODE_ERROR"
    by force
  have step: "retry_loop rt request maxRetries retryDelays ios attempt w
                = retry_loop rt request maxRetries retryDelays ios (attempt + 1) ?w2"
    using Suc.prems(1) f
    by (subst retry_loop.simps) (simp add: Let_def retryableCodes_def)
  have inv2: "invocations ?w2 = invocations w + 1" by simp
  have "fst (retry_loop rt request maxRetries retryDelays ios (attempt + 1) ?w2) = Return response
       \<and> invocations (snd (retry_loop rt request maxRetries retryDelays ios (attempt + 1) ?w2))
           = invocations ?w2 + k + 1"
  proof (rule Suc.IH)
    show "attempt + 1 + int k \<le> maxRetries" using Suc.prems(1) by simp
    show "\<forall>i<k. \<exists>failure. fst (executeClaudeCode rt request (ios (invocations ?w2 + i))) = Return failure
                    \<and> \<not> success failure \<and> retry_code failure = CLAUDE_CODE_ERROR"
    proof (intro allI impI)
      fix i assume "i < k"
      then have "Suc i < Suc k" by simp
      with Suc.prems(2) have "\<exists>failure. fst (executeClaudeCode rt request (ios (invocations w + Suc i))) = Return failure
                    \<and> \<not> success failure \<and> retry_code failure = CLAUDE_CODE_ERROR"
        by blast
      then show "\<exists>failure. fst (executeClaudeCode rt request (ios (invocations ?w2 + i))) = Return failure
                    \<and> \<not> success failure \<and> retry_code failure = CLAUDE_CODE_ERROR"
        by (simp only: inv2) simp
    qed
    show "fst (executeClaudeCode rt request (ios (invocations ?w2 + k))) = Return response"
      using Suc.prems(3) by (simp only: inv2) simp
    show "success response" by (rule Suc.prems(4))
  qed
  then show ?case unfolding step by (simp only: inv2) simp
qed

text \<open>
  C7. Let the first \<open>k\<close> calls of \<^verbatim>\<open>executeClaudeCode\<close> each return a response with the
  retry code \<open>CLAUDE_CODE_ERROR\<close> and \<open>success = False\<close>, and the call after them a
  response with \<open>success = True\<close>. Then \<^verbatim>\<open>executeClaudeCodeWithRetry\<close>, called with
  \<open>maxRetries\<close> at least \<open>k + 1\<close>, returns that successful response, and
  \<^verbatim>\<open>executeClaudeCode\<close> has been called exactly \<open>k + 1\<close> times.
\<close>

theorem retry_returns_first_success:
  assumes "int k + 1 \<le> maxRetries"
    and "\<forall>i<k. \<exists>failure. fst (executeClaudeCode rt request (ios (invocations w + i))) = Return failure
                    \<and> \<not> success failure \<and> retry_code failure = CLAUDE_CODE_ERROR"
    and "fst (executeClaudeCode rt request (ios (invocations w + k))) = Return response"
    and "success response"
  shows "fst (executeClaudeCodeWithRetry rt request maxRetries retryDelays ios w) = Return response
       \<and> invocations (snd (executeClaudeCodeWithRetry rt request maxRetries retryDelays ios w))
           = invocations w + (k + 1)"
proof -
  have "0 + int k \<le> maxRetries" using assms(1) by simp
  from retry_loop_succeeds_after [OF this assms(2) assms(3) assms(4)]
  show ?thesis by (simp add: executeClaudeCodeWithRetry_def)
qed

text \<open>The theorem at two failed runs followed by a good one, with the default arguments.\<close>

theorem retry_returns_first_success_witness:
  "int 2 + 1 \<le> 3
   \<and> fst (executeClaudeCodeWithRetry posix_runtime sample_request 3 [1, 3, 5]
            (\<lambda>i. if i < 2 then failed_run else good_run) initial_world)
       = Return \<lparr>output = JStr ''Done'', success = True, session_id = Some (JStr ''abc123''),
                 retry_code = NONE\<rparr>
   \<and> invocations (snd (executeClaudeCodeWithRetry posix_runtime sample_request 3 [1, 3, 5]
            (\<lambda>i. if i < 2 then failed_run else good_run) initial_world)) = 3"
proof -
  let ?ios = "\<lambda>i::nat. if i < 2 then failed_run else good_run"
  have failed: "fst (executeClaudeCode posix_runtime sample_request failed_run)
     = Return \<lparr>output = JStr ''Error: Claude Code command failed with exit code 1'',
               success = False, session_id = None, retry_code = CLAUDE_CODE_ERROR\<rparr>"
    by code_simp
  have good: "fst (executeClaudeCode posix_runtime sample_request good_run)
     = Return \<lparr>output = JStr ''Done'', success = True, session_id = Some (JStr ''abc123''),
               retry_code = NONE\<rparr>"
    by code_simp
  have h1: "int 2 + 1 \<le> 3" by simp
  have h2: "\<forall>i<2. \<exists>failure. fst (executeClaudeCode posix_runtime sample_request
                                   (?ios (invocations initial_world + i))) = Return failure
                    \<and> \<not> success failure \<and> retry_code failure = CLAUDE_CODE_ERROR"
    using failed by (simp add: initial_world_def)
  have h3: "fst (executeClaudeCode posix_runtime sample_request (?ios (invocations initial_world + 2)))
              = Return \<lparr>output = JStr ''Done'', success = True, session_id = Some (JStr ''abc123''),
                        retry_code = NONE\<rparr>"
    using good by (simp add: initial_world_def)
  have h4: "success \<lparr>output = JStr ''Done'', success = True, session_id = Some (JStr ''abc123''),
                        retry_code = NONE\<rparr>" by simp
  show ?thesis
    using retry_returns_first_success [OF h1 h2 h3 h4, of "[1, 3, 5]"]
    by (simp add: initial_world_def)
qed

subsection \<open>Truncation of a short text\<close>

text \<open>
  C8, as stated, fails: a text of two JSON lines, shorter than the limit, is
  JSONL-shaped, and \<^verbatim>\<open>truncateOutput\<close> returns a placeholder instead of the text.
\<close>

theorem short_jsonl_text_counterexample:
  \<open>truncateOutput posix_runtime (''{"type":"system"}'' @ [newline] @ ''{"type":"user"}'') 500
       default_suffix
     = Some ''[JSONL output with 2 messages]... (truncated)''
   \<and> int (length (''{"type":"system"}'' @ [newline] @ ''{"type":"user"}'')) < 500\<close>
  by code_simp

text \<open>
  C8, amended. For every input string strictly shorter than the limit that is not
  JSONL-shaped (it does not both start with \<^verbatim>\<open>{"type":\<close> and hold a line that starts
  so), \<^verbatim>\<open>truncateOutput\<close> returns the string unchanged.
\<close>

theorem short_plain_text_unchanged:
  assumes "\<not> (startsWith s jsonl_prefix \<and> js_includes s (newline # jsonl_prefix))"
    and "int (length s) < maxLength"
  shows "truncateOutput rt s maxLength suffix = Some s"
  using assms by (subst truncateOutput.simps) auto

theorem short_plain_text_witness:
  "\<not> (startsWith ''Done'' jsonl_prefix \<and> js_includes ''Done'' (newline # jsonl_prefix))
   \<and> int (length ''Done'') < 500
   \<and> truncateOutput posix_runtime ''Done'' 500 default_suffix = Some ''Done''"
proof -
  have h1: "\<not> (startsWith ''Done'' jsonl_prefix \<and> js_includes ''Done'' (newline # jsonl_prefix))"
    by code_simp
  have h2: "int (length ''Done'') < 500" by simp
  show ?thesis using short_plain_text_unchanged [OF h1 h2] h1 h2 by simp
qed

subsection \<open>The exit code of a missing agent binary\<close>

text \<open>
  C9, as stated, fails: with the documented exit codes, the wrapper exits with 1 when
  the agent binary is not found (no command run) and with 1 when the agent runs and
  exits with 3.
\<close>

theorem binary_not_found_counterexample:
  "exit_status (claude_code_exec_sh documented_codes
                  (sample_sh_env\<lparr>command_found := (\<lambda>c. False)\<rparr>) sample_argv) = 1
   \<and> agent_command (claude_code_exec_sh documented_codes
                  (sample_sh_env\<lparr>command_found := (\<lambda>c. False)\<rparr>) sample_argv) = None
   \<and> exit_status (claude_code_exec_sh documented_codes
                  (sample_sh_env\<lparr>agent_status := 3\<rparr>) sample_argv) = 1
   \<and> agent_command (claude_code_exec_sh documented_codes
                  (sample_sh_env\<lparr>agent_status := 3\<rparr>) sample_argv)
       = Some [''claude'', ''-p'', ''/build app'', ''--model'', ''sonnet'',
               ''--output-format'', ''stream-json'', ''--verbose'']"
  by code_simp

text \<open>
  C9, amended. For every invocation of the wrapper with valid arguments in which the
  agent binary cannot be resolved, the wrapper exits before running any command, with
  \<open>EXIT_CLAUDE_ERROR\<close>: the same exit code with which it exits when the agent runs and
  fails. There is no exit code of its own for a binary that is not found.
\<close>

theorem binary_not_found_uses_agent_error_code:
  assumes "6 \<le> length argv"
    and "argv ! 1 = ''sonnet'' \<or> argv ! 1 = ''opus''"
    and "is_directory missing (argv ! 3)" and "is_directory present (argv ! 3)"
    and "claude_path = (case CLAUDE_CODE_PATH missing of
                          None \<Rightarrow> ''claude'' | Some p \<Rightarrow> if p = [] then ''claude'' else p)"
    and "\<not> command_found missing claude_path"
    and "command_found present (case CLAUDE_CODE_PATH present of
                                  None \<Rightarrow> ''claude'' | Some p \<Rightarrow> if p = [] then ''claude'' else p)"
    and "get_safe_env_status present = 0" and "mkdir_status present = 0" and "cd_succeeds present"
    and "agent_status present \<noteq> 0" and "agent_status present \<noteq> 124"
  shows "claude_code_exec_sh codes missing argv
           = \<lparr>exit_status = EXIT_CLAUDE_ERROR codes, agent_command = None,
              stderr_lines = [''Error: Claude Code CLI not found at: '' @ claude_path]\<rparr>
       \<and> exit_status (claude_code_exec_sh codes present argv) = EXIT_CLAUDE_ERROR codes
       \<and> agent_command (claude_code_exec_sh codes present argv) \<noteq> None"
  using assms by (auto simp: claude_code_exec_sh_def Let_def)

theorem binary_not_found_witness:
  "claude_code_exec_sh documented_codes (sample_sh_env\<lparr>command_found := (\<lambda>c. False)\<rparr>) sample_argv
     = \<lparr>exit_status = 1, agent_command = None,
        stderr_lines = [''Error: Claude Code CLI not found at: claude'']\<rparr>
   \<and> exit_status (claude_code_exec_sh documented_codes (sample_sh_env\<lparr>agent_status := 3\<rparr>)
                    sample_argv) = 1"
proof -
  let ?missing = "sample_sh_env\<lparr>command_found := (\<lambda>c. False)\<rparr>"
  let ?present = "sample_sh_env\<lparr>agent_status := 3\<rparr>"
  have h1: "6 \<le> length sample_argv" by (simp add: sample_argv_def)
  have h2: "sample_argv ! 1 = ''sonnet'' \<or> sample_argv ! 1 = ''opus''"
    by (simp add: sample_argv_def)
  have h3: "is_directory ?missing (sample_argv ! 3)"
    by (simp add: sample_argv_def sample_sh_env_def)
  have h4: "is_directory ?present (sample_argv ! 3)"
    by (simp add: sample_argv_def sample_sh_env_def)
  have h5: "''claude'' = (case CLAUDE_CODE_PATH ?missing of
                            None \<Rightarrow> ''claude'' | Some p \<Rightarrow> if p = [] then ''claude'' else p)"
    by (simp add: sample_sh_env_def)
  have h6: "\<not> command_found ?missing ''claude''" by (simp add: sample_sh_env_def)
  have h7: "command_found ?present (case CLAUDE_CODE_PATH ?present of
                            None \<Rightarrow> ''claude'' | Some p \<Rightarrow> if p = [] then ''claude'' else p)"
    by (simp add: sample_sh_env_def)
  have h8: "get_safe_env_status ?present = 0" "mkdir_status ?present = 0" "cd_succeeds ?present"
       "agent_status ?present \<noteq> 0" "agent_status ?present \<noteq> 124"
    by (simp_all add: sample_sh_env_def)
  show ?thesis
    using binary_not_found_uses_agent_error_code
            [OF h1 h2 h3 h4 h5 h6 h7 h8, of documented_codes]
    by (simp add: documented_codes_def)
qed

subsection \<open>Templates always skip the permission prompt\<close>

lemma executeClaudeCode_spawned:
  assumes "Spawned argv cwd \<in> set (snd (executeClaudeCode rt request io))"
  shows "length argv = 7
       \<and> argv ! 6 = (if dangerously_skip_permissions request then ''true'' else ''false'')"
  using assms
  by (auto simp: executeClaudeCode_def executeClaudeCode_try_def convertJSONLToJSON_def
        saveLastEntryAsRawResult_def Let_def
      split: option.splits sum.splits result.splits prod.splits json.splits list.splits if_splits)

lemma retry_loop_spawned:
  "Spawned argv cwd \<in> set (trace (snd (retry_loop rt request maxRetries retryDelays ios attempt w)))
   \<Longrightarrow> Spawned argv cwd \<in> set (trace w)
       \<or> (length argv = 7
          \<and> argv ! 6 = (if dangerously_skip_permissions request then ''true'' else ''false''))"
proof (induction rt request maxRetries retryDelays ios attempt w rule: retry_loop.induct)
  case (1 rt request maxRetries retryDelays ios attempt w)
  let ?w1 = "(if attempt > 0
              then w\<lparr>trace := trace w
                     @ [Slept (map_option (\<lambda>d. d * 1000) (delay_at retryDelays (attempt - 1)))]\<rparr>
              else w)"
  let ?ran = "executeClaudeCode rt request (ios (invocations ?w1))"
  let ?w2 = "?w1\<lparr>invocations := Suc (invocations ?w1), trace := trace ?w1 @ snd ?ran\<rparr>"
  have w2: "Spawned argv cwd \<in> set (trace ?w2) \<Longrightarrow> ?case"
    using executeClaudeCode_spawned [of argv cwd rt request "ios (invocations ?w1)"]
    by (auto split: if_splits)
  show ?case
  proof (cases "attempt \<le> maxRetries")
    case False
    then show ?thesis using "1.prems" by (subst (asm) retry_loop.simps) simp
  next
    case True
    show ?thesis
    proof (cases "fst ?ran")
      case (Return response)
      show ?thesis
      proof (cases "\<not> (success response \<or> retry_code response = NONE)
                    \<and> \<not> retry_code response \<notin> set retryableCodes \<and> attempt < maxRetries")
        case True
        then have "retry_loop rt request maxRetries retryDelays ios attempt w
                     = retry_loop rt request maxRetries retryDelays ios (attempt + 1) ?w2"
          using Return \<open>attempt \<le> maxRetries\<close>
          by (subst retry_loop.simps) (simp add: Let_def)
        then have "Spawned argv cwd \<in> set (trace (snd (retry_loop rt request maxRetries retryDelays ios (attempt + 1) ?w2)))"
          using "1.prems" by simp
        then have "Spawned argv cwd \<in> set (trace ?w2)
             \<or> (length argv = 7
                \<and> argv ! 6 = (if dangerously_skip_permissions request then ''true'' else ''false''))"
          using "1.IH" [OF \<open>attempt \<le> maxRetries\<close> refl refl refl Return] True by blast
        then show ?thesis using w2 by blast
      next
        case False
        then have "snd (retry_loop rt request maxRetries retryDelays ios attempt w) = ?w2"
          using Return \<open>attempt \<le> maxRetries\<close>
          by (subst retry_loop.simps) (auto simp: Let_def)
        then show ?thesis using "1.prems" w2 by simp
      qed
    next
      case (Throw e)
      then have "snd (retry_loop rt request maxRetries retryDelays ios attempt w) = ?w2"
        using \<open>attempt \<le> maxRetries\<close> by (subst retry_loop.simps) (simp add: Let_def)
      then show ?thesis using "1.prems" w2 by simp
    next
      case Diverge
      then have "snd (retry_loop rt request maxRetries retryDelays ios attempt w) = ?w2"
        using \<open>attempt \<le> maxRetries\<close> by (subst retry_loop.simps) (simp add: Let_def)
      then show ?thesis using "1.prems" w2 by simp
    qed
  qed
qed

lemma savePrompt_no_spawn: "Spawned argv cwd \<notin> set (snd (savePrompt rt p a n tio))"
  by (simp add: savePrompt_def Let_def split: option.splits)

lemma executeTemplate_spawned:
  assumes "Spawned argv cwd \<in> set (trace (snd (executeTemplate rt request tio ios w)))"
  shows "Spawned argv cwd \<in> set (trace w) \<or> (length argv = 7 \<and> argv ! 6 = ''true'')"
proof (cases "template_dir_write tio")
  case (Some e)
  then show ?thesis using assms by (simp add: executeTemplate_def Let_def)
next
  case None
  let ?pr = "template_prompt_request rt request"
  let ?saved = "savePrompt rt (prompt ?pr) (t_adw_id request) (t_agent_name request) tio"
  let ?dir = "path_join rt [path_join rt [import_meta_dir rt, ''..'', ''..''], ''agents'',
                            t_adw_id request, t_agent_name request]"
  let ?w1 = "w\<lparr>trace := trace w @ [Wrote (path_join rt [?dir, ''.placeholder'']) (Text [])]\<rparr>"
  let ?w2 = "?w1\<lparr>trace := trace ?w1 @ snd ?saved\<rparr>"
  have run: "snd (executeTemplate rt request tio ios w) = ?w2
              \<or> snd (executeTemplate rt request tio ios w)
                  = snd (executeClaudeCodeWithRetry rt ?pr 3 [1, 3, 5] ios ?w2)"
    using None by (cases "fst ?saved") (simp_all add: executeTemplate_def Let_def)
  have before: "Spawned argv cwd \<in> set (trace ?w2) \<Longrightarrow> Spawned argv cwd \<in> set (trace w)"
    using savePrompt_no_spawn [of argv cwd rt "prompt ?pr" "t_adw_id request" "t_agent_name request" tio]
    by simp
  have flag: "dangerously_skip_permissions ?pr" by (simp add: template_prompt_request_def Let_def)
  from run show ?thesis
  proof
    assume "snd (executeTemplate rt request tio ios w) = ?w2"
    then show ?thesis using assms before by simp
  next
    assume "snd (executeTemplate rt request tio ios w)
              = snd (executeClaudeCodeWithRetry rt ?pr 3 [1, 3, 5] ios ?w2)"
    then have "Spawned argv cwd \<in> set (trace (snd (retry_loop rt ?pr 3
                   (extend_delays 3 (map Some [1, 3, 5])) ios 0 ?w2)))"
      using assms by (simp add: executeClaudeCodeWithRetry_def)
    then have "Spawned argv cwd \<in> set (trace ?w2) \<or> (length argv = 7 \<and> argv ! 6 = ''true'')"
      using retry_loop_spawned [of argv cwd rt ?pr] flag by fastforce
    then show ?thesis using before by blast
  qed
qed

text \<open>
  C10. The prompt request \<^verbatim>\<open>executeTemplate\<close> builds has
  \<open>dangerously_skip_permissions\<close> set, whatever the template request is; every
  wrapper \<^verbatim>\<open>executeTemplate\<close> spawns gets \<^verbatim>\<open>true\<close> as its sixth argument; and
  \<^verbatim>\<open>claude-code-template.sh\<close> hands \<^verbatim>\<open>true\<close> as the sixth argument to
  \<^verbatim>\<open>claude-code-exec.sh\<close>, so that whenever the agent is run from it, it is run with
  \<^verbatim>\<open>--dangerously-skip-permissions\<close>.
\<close>

theorem template_invocations_skip_permissions:
  "dangerously_skip_permissions (template_prompt_request rt request)
   \<and> (\<forall>argv cwd. Spawned argv cwd \<in> set (trace (snd (executeTemplate rt request tio ios w)))
         \<longrightarrow> Spawned argv cwd \<in> set (trace w) \<or> (length argv = 7 \<and> argv ! 6 = ''true''))
   \<and> (6 \<le> length sh_argv \<and> startsWith (sh_argv ! 0) ''/''
         \<longrightarrow> claude_code_template_sh codes name env sh_argv
             = claude_code_exec_sh codes env
                 [if sh_argv ! 1 \<noteq> [] then sh_argv ! 0 @ '' '' @ sh_argv ! 1 else sh_argv ! 0,
                  sh_argv ! 3, sh_argv ! 2, sh_argv ! 4, sh_argv ! 5, ''true''])
   \<and> (\<forall>cmd. agent_command (claude_code_template_sh codes name env sh_argv) = Some cmd
         \<longrightarrow> ''--dangerously-skip-permissions'' \<in> set cmd)"
proof (intro conjI allI impI)
  show "dangerously_skip_permissions (template_prompt_request rt request)"
    by (simp add: template_prompt_request_def Let_def)
next
  fix argv cwd
  assume "Spawned argv cwd \<in> set (trace (snd (executeTemplate rt request tio ios w)))"
  then show "Spawned argv cwd \<in> set (trace w) \<or> (length argv = 7 \<and> argv ! 6 = ''true'')"
    by (rule executeTemplate_spawned)
next
  assume "6 \<le> length sh_argv \<and> startsWith (sh_argv ! 0) ''/''"
  then show "claude_code_template_sh codes name env sh_argv
             = claude_code_exec_sh codes env
                 [if sh_argv ! 1 \<noteq> [] then sh_argv ! 0 @ '' '' @ sh_argv ! 1 else sh_argv ! 0,
                  sh_argv ! 3, sh_argv ! 2, sh_argv ! 4, sh_argv ! 5, ''true'']"
    by (simp add: claude_code_template_sh_def Let_def)
next
  fix cmd
  assume "agent_command (claude_code_template_sh codes name env sh_argv) = Some cmd"
  then show "''--dangerously-skip-permissions'' \<in> set cmd"
    by (auto simp: claude_code_template_sh_def claude_code_exec_sh_def Let_def split: if_splits)
qed

text \<open>The theorem at a template request with a good run, and at a call of the script.\<close>

theorem template_invocations_witness:
  "Spawned [''/repo/adws/bash/claude-code-exec.sh'', ''/build app'', ''sonnet'',
            ''/repo/agents/abc12345/ops/cc_raw_output.jsonl'', ''/repo'', [], ''true''] ''/repo''
     \<in> set (trace (snd (executeTemplate posix_runtime sample_template_request
                          \<lparr>template_dir_write = None, prompt_dir_write = None, prompt_write = None\<rparr>
                          (\<lambda>i. good_run) initial_world)))
   \<and> [''/repo/adws/bash/claude-code-exec.sh'', ''/build app'', ''sonnet'',
       ''/repo/agents/abc12345/ops/cc_raw_output.jsonl'', ''/repo'', [], ''true''] ! 6 = ''true''
   \<and> agent_command (claude_code_template_sh documented_codes
                      ''/repo/adws/bash/claude-code-template.sh'' sample_sh_env
                      [''/build'', ''app'', ''/repo/agents/a/ops/cc_raw_output.jsonl'', ''sonnet'',
                       ''/repo'', []])
       = Some [''claude'', ''-p'', ''/build app'', ''--model'', ''sonnet'',
               ''--output-format'', ''stream-json'', ''--verbose'',
               ''--dangerously-skip-permissions'']"
proof -
  let ?argv = "[''/repo/adws/bash/claude-code-exec.sh'', ''/build app'', ''sonnet'',
                ''/repo/agents/abc12345/ops/cc_raw_output.jsonl'', ''/repo'', [], ''true'']"
  let ?tio = "\<lparr>template_dir_write = None, prompt_dir_write = None, prompt_write = None\<rparr>"
  let ?sh = "[''/build'', ''app'', ''/repo/agents/a/ops/cc_raw_output.jsonl'', ''sonnet'',
              ''/repo'', []]"
  have spawned: "Spawned ?argv ''/repo''
     \<in> set (trace (snd (executeTemplate posix_runtime sample_template_request ?tio
                          (\<lambda>i. good_run) initial_world)))"
    by code_simp
  have valid: "6 \<le> length ?sh \<and> startsWith (?sh ! 0) ''/''" by (simp add: startsWith_def)
  have ran: "agent_command (claude_code_exec_sh documented_codes sample_sh_env
               [''/build app'', ''sonnet'', ''/repo/agents/a/ops/cc_raw_output.jsonl'', ''/repo'',
                [], ''true''])
       = Some [''claude'', ''-p'', ''/build app'', ''--model'', ''sonnet'',
               ''--output-format'', ''stream-json'', ''--verbose'',
               ''--dangerously-skip-permissions'']"
    by code_simp
  show ?thesis
    using template_invocations_skip_permissions
            [of posix_runtime sample_template_request ?tio "\<lambda>i. good_run" initial_world
                ?sh documented_codes "''/repo/adws/bash/claude-code-template.sh''" sample_sh_env]
      spawned valid ran
    by simp
qed

end
